theory Spec2Isabelle
  imports Complex_Main "HOL-Library.Sublist"
begin

section \<open>The ArcGIS map widget: a shallow embedding of its JavaScript view\<close>

text \<open>
  The widget view (\<^verbatim>\<open>arcgis-map-ipywidget-view.js\<close>), the image overlay layer
  (\<^verbatim>\<open>get-image-overlay-layer-type.js\<close>) and the layer dispatcher
  (\<^verbatim>\<open>infer-no-type-layer.js\<close>) are event-driven JavaScript. Each callback runs to
  completion on the single JavaScript thread, so a callback is modelled as a function
  from the state before it to the state after it. The vendor mapping library and the host
  widget framework are outside the repository: what they hand back (a module load, a
  layer load, a renderer inference) is an explicit input of the model.
\<close>

subsection \<open>Values shared by the models\<close>

text \<open>JSON payloads that the code passes along without looking inside.\<close>

datatype json =
    JNull
  | JBool bool
  | JNum real
  | JStr string
  | JArr "json list"
  | JObj "(string \<times> json) list"

subsection \<open>JavaScript values and property access\<close>

text \<open>
  A rejection value or a thrown exception: a plain string handed to \<^verbatim>\<open>reject\<close>, the
  \<^verbatim>\<open>TypeError\<close> that JavaScript throws when a property of \<^verbatim>\<open>undefined\<close> or
  \<^verbatim>\<open>null\<close> is read (or \<^verbatim>\<open>in\<close> is applied to a primitive), or a failure reported by
  the vendor library or a helper module.
\<close>

datatype error =
    ErrString string
  | TypeError
  | VendorError string

text \<open>A settled promise.\<close>

datatype 'a settled = Resolved 'a | Rejected error

text \<open>
  An optional JSON value stands for a JavaScript value: \<open>None\<close> is \<^verbatim>\<open>undefined\<close>
  (an absent property). \<open>get_prop x k\<close> is the property read \<^verbatim>\<open>x.k\<close> (\<open>obj_get\<close> where
  \<open>x\<close> is known not to be \<^verbatim>\<open>null\<close> or \<^verbatim>\<open>undefined\<close>) for the property
  names the code uses (none of them is a built-in property of a string, number or array),
  \<open>has_key k x\<close> is \<^verbatim>\<open>k in x\<close>, \<open>nullish x\<close> is \<^verbatim>\<open>x == null\<close> and
  \<open>falsy x\<close> is \<^verbatim>\<open>!x\<close>.
\<close>

fun obj_get :: "json option \<Rightarrow> string \<Rightarrow> json option" where
  "obj_get (Some (JObj kv)) k = map_of kv k"
| "obj_get _ k = None"

definition nullish :: "json option \<Rightarrow> bool" where
  "nullish x = (x = None \<or> x = Some JNull)"

definition get_prop :: "json option \<Rightarrow> string \<Rightarrow> error + json option" where
  "get_prop x k = (if nullish x then Inl TypeError else Inr (obj_get x k))"

fun has_key :: "string \<Rightarrow> json option \<Rightarrow> error + bool" where
  "has_key k (Some (JObj kv)) = Inr (map_of kv k \<noteq> None)"
| "has_key k (Some (JArr xs)) = Inr False"
| "has_key k _ = Inl TypeError"

definition falsy :: "json option \<Rightarrow> bool" where
  "falsy x = (x = None \<or> x = Some JNull \<or> x = Some (JBool False)
              \<or> x = Some (JNum 0) \<or> x = Some (JStr []))"

subsection \<open>The image overlay layer\<close>

text \<open>
  An entry of \<^verbatim>\<open>_imagesToOverlay\<close>, as \<^verbatim>\<open>tryOverlayImage\<close> adds it:
  \<^verbatim>\<open>{id, imgEl, extent, opacity}\<close>.
\<close>

record imageOverlay =
  overlay_id :: string
  overlay_imgEl :: string
  overlay_extent :: json
  overlay_opacity :: real

text \<open>\<^verbatim>\<open>Collection.removeAt(i)\<close>: the item at index \<open>i\<close> leaves, later items shift down.\<close>

definition removeAt :: "nat \<Rightarrow> 'a list \<Rightarrow> 'a list" where
  "removeAt i xs = take i xs @ drop (Suc i) xs"

text \<open>
  \<^verbatim>\<open>
  tryRemoveImageOverlays: function(imageOverlaysToRemove){
      var i;
      for(i=0;i<this._imagesToOverlay.length; i++){
          var existingOverlay = this._imagesToOverlay.getItemAt(i);
          if(imageOverlaysToRemove.includes(existingOverlay.id)){
              this._imagesToOverlay.removeAt(i);
          }
      }
  }
  \<close>
  The loop tests \<open>i\<close> against the current length and steps \<open>i\<close> after every
  iteration, also after one that removed the item at \<open>i\<close>.
\<close>

function tryRemoveImageOverlays_loop ::
  "nat \<Rightarrow> string list \<Rightarrow> imageOverlay list \<Rightarrow> imageOverlay list" where
  "tryRemoveImageOverlays_loop i imageOverlaysToRemove imagesToOverlay =
     (if i < length imagesToOverlay then
        (if overlay_id (imagesToOverlay ! i) \<in> set imageOverlaysToRemove
         then tryRemoveImageOverlays_loop (Suc i) imageOverlaysToRemove
                (removeAt i imagesToOverlay)
         else tryRemoveImageOverlays_loop (Suc i) imageOverlaysToRemove imagesToOverlay)
      else imagesToOverlay)"
  by pat_completeness auto
termination
  by (relation "measure (\<lambda>(i, rm, xs). length xs - i)") (auto simp: removeAt_def)

definition tryRemoveImageOverlays :: "string list \<Rightarrow> imageOverlay list \<Rightarrow> imageOverlay list" where
  "tryRemoveImageOverlays imageOverlaysToRemove imagesToOverlay =
     tryRemoveImageOverlays_loop 0 imageOverlaysToRemove imagesToOverlay"

text \<open>An overlay with the given id, for concrete runs.\<close>

definition overlay :: "string \<Rightarrow> imageOverlay" where
  "overlay i = \<lparr>overlay_id = i, overlay_imgEl = ''img'', overlay_extent = JNull, overlay_opacity = 1\<rparr>"

subsection \<open>The layer dispatcher: descriptors, handlers and collaborators\<close>

text \<open>
  The vendor layer classes that \<^verbatim>\<open>inferNoTypeLayer\<close> constructs, and the group layer
  that a web map can bring onto the map.
\<close>

datatype layerCtor =
    ImageryLayer | ImageryTileLayer | KMLLayer | TileLayer | MapImageLayer
  | VectorTileLayer | WMSLayer | WMTSLayer | GeoRSSLayer | GeoJSONLayer | CSVLayer
  | SceneLayer | PointCloudLayer | IntegratedMeshLayer | BuildingSceneLayer
  | FeatureLayer | GroupLayer

text \<open>
  A constructed layer: its class, the url it was constructed from, its \<^verbatim>\<open>id\<close> and the
  other properties the code passes to the constructor or assigns afterwards, in order.
\<close>

record typedLayer =
  ctor :: layerCtor
  layer_url :: "json option"
  layer_id :: "string option"
  props :: "(string \<times> json option) list"

definition new_layer :: "layerCtor \<Rightarrow> json option \<Rightarrow> typedLayer" where
  "new_layer c u = \<lparr>ctor = c, layer_url = u, layer_id = None, props = []\<rparr>"

definition set_prop :: "string \<Rightarrow> json option \<Rightarrow> typedLayer \<Rightarrow> typedLayer" where
  "set_prop k v l = l\<lparr>props := props l @ [(k, v)]\<rparr>"

text \<open>
  The untyped descriptor. The wire format gives \<^verbatim>\<open>type\<close>, \<^verbatim>\<open>capabilities\<close> and
  \<^verbatim>\<open>_hashFromPython\<close> as strings; an absent property is \<open>None\<close>. The other
  properties are JSON the dispatcher reads into.
\<close>

record noTypeLayer =
  layer_type :: "string option"
  url :: "json option"
  hashFromPython :: "string option"
  capabilities :: "string option"
  options :: "json option"
  data :: "json option"
  renderer :: "json option"
  sublayers :: "json option"
  layerDefinition :: "json option"
  featureSet :: "json option"
  opacity :: "json option"
  definition_expression :: "json option"
  field_name :: "json option"

text \<open>
  \<^verbatim>\<open>lyr_options\<close> of the FeatureLayer branch is the descriptor itself when
  \<^verbatim>\<open>noTypeLayer.options == null\<close>, and \<^verbatim>\<open>noTypeLayer.options\<close> otherwise.
\<close>

datatype lyrOptions = OfDescriptor noTypeLayer | OfOptions json

fun lyr_prop :: "lyrOptions \<Rightarrow> string \<Rightarrow> json option" where
  "lyr_prop (OfDescriptor d) k =
     (if k = ''opacity'' then opacity d
      else if k = ''definition_expression'' then definition_expression d
      else if k = ''renderer'' then renderer d
      else if k = ''field_name'' then field_name d
      else None)"
| "lyr_prop (OfOptions (JObj kv)) k = map_of kv k"
| "lyr_prop (OfOptions _) k = None"

text \<open>The second argument of \<^verbatim>\<open>inferRenderer\<close>, as the call sites build it.\<close>

datatype rendererOptions =
    SmartMapOptions typedLayer "json option" json lyrOptions
  | LyrOptions lyrOptions
  | RendererJson "json option"

text \<open>
  What the collaborators outside the repository hand back. \<open>loadModules\<close>: the outcome
  of \<^verbatim>\<open>esriLoader.loadModules\<close> (\<open>None\<close>: the modules arrived). \<open>inferRenderer\<close> and
  \<open>isSmartMapRenderer\<close>: the helper modules \<^verbatim>\<open>renderer-utils/infer-renderer\<close> and
  \<^verbatim>\<open>renderer-utils/renderer-types-util\<close>. \<open>load\<close>: the outcome of the vendor's
  \<^verbatim>\<open>FeatureLayer.load()\<close>, which on success resolves with the layer it was called on.
  \<open>fromJSON\<close> (of a rendering or mosaic rule), \<open>featureSet_fromJSON\<close> (of a feature
  set and the properties assigned onto it), \<open>btoa_stringify\<close>, \<open>createObjectURL\<close>, \<open>createDefaultPopup\<close>,
  \<open>uuid4\<close> and \<open>basemap\<close> (\<^verbatim>\<open>widget.model.get("basemap")\<close>) are values the
  dispatcher only passes on.
\<close>

record env =
  loadModules :: "error option"
  inferRenderer :: "json option \<Rightarrow> rendererOptions \<Rightarrow> error + json"
  isSmartMapRenderer :: "json option \<Rightarrow> bool"
  load :: "typedLayer \<Rightarrow> error option"
  fromJSON :: "json option \<Rightarrow> json"
  featureSet_fromJSON :: "json \<Rightarrow> (string \<times> json option) list \<Rightarrow> json"
  btoa_stringify :: "json \<Rightarrow> string"
  createObjectURL :: "json \<Rightarrow> json"
  createDefaultPopup :: "typedLayer \<Rightarrow> json"
  uuid4 :: string
  basemap :: json

definition with_id :: "noTypeLayer \<Rightarrow> typedLayer \<Rightarrow> typedLayer" where
  "with_id d l = l\<lparr>layer_id := hashFromPython d\<rparr>"

subsection \<open>The layer dispatcher: the branches of \<^verbatim>\<open>inferNoTypeLayer\<close>\<close>

text \<open>
  The ImageryLayer branch (source lines 66 to 104). With \<^verbatim>\<open>capabilities == "tilesOnly"\<close>
  an ImageryTileLayer is built; otherwise an ImageryLayer, to which the rendering rule, the
  mosaic rule and the raster of \<^verbatim>\<open>options.imageServiceParameters\<close> are applied when
  present. The first \<^verbatim>\<open>in\<close> throws when its right operand is a primitive.
\<close>

definition encode_raster :: "env \<Rightarrow> json option \<Rightarrow> json option" where
  "encode_raster e raster =
     (case raster of
        Some (JStr s) \<Rightarrow> Some (JStr s)
      | Some j \<Rightarrow> Some (JStr (btoa_stringify e j))
      | None \<Rightarrow> None)"

definition apply_imageServiceParameters ::
  "env \<Rightarrow> json option \<Rightarrow> typedLayer \<Rightarrow> error + typedLayer" where
  "apply_imageServiceParameters e isp l =
     (case has_key ''renderingRule'' isp of
        Inl err \<Rightarrow> Inl err
      | Inr hasRule \<Rightarrow>
          (let l1 = (if hasRule
                     then set_prop ''renderingRule''
                            (Some (fromJSON e (obj_get isp ''renderingRule''))) l
                     else l);
               l2 = (if has_key ''mosaicRule'' isp = Inr True
                     then set_prop ''mosaicRule''
                            (Some (fromJSON e (obj_get isp ''mosaicRule''))) l1
                     else l1);
               l3 = (if has_key ''raster'' isp = Inr True
                     then set_prop ''raster'' (encode_raster e (obj_get isp ''raster'')) l2
                     else l2)
           in Inr l3))"

definition imageryLayer_branch :: "env \<Rightarrow> noTypeLayer \<Rightarrow> typedLayer settled" where
  "imageryLayer_branch e d =
     (if capabilities d = Some ''tilesOnly''
      then Resolved (with_id d (new_layer ImageryTileLayer (url d)))
      else
        (let l = with_id d (new_layer ImageryLayer (url d)) in
         if options d = None then Resolved l
         else
           (case has_key ''imageServiceParameters'' (options d) of
              Inl err \<Rightarrow> Rejected err
            | Inr False \<Rightarrow> Resolved l
            | Inr True \<Rightarrow>
                (case apply_imageServiceParameters e
                        (obj_get (options d) ''imageServiceParameters'') l of
                   Inl err \<Rightarrow> Rejected err
                 | Inr l' \<Rightarrow> Resolved l'))))"

text \<open>
  The WMS branch (lines 125 to 130): \<^verbatim>\<open>noTypeLayer.sublayers[0]\<close> throws when
  \<^verbatim>\<open>sublayers\<close> is absent or null. The descriptor, with \<^verbatim>\<open>subLayers\<close> added and
  \<^verbatim>\<open>type\<close> deleted, is the constructor's argument.
\<close>

fun index0 :: "json \<Rightarrow> json option" where
  "index0 (JArr (x # xs)) = Some x"
| "index0 (JStr (c # cs)) = Some (JStr [c])"
| "index0 (JObj kv) = map_of kv ''0''"
| "index0 _ = None"

definition wms_branch :: "noTypeLayer \<Rightarrow> typedLayer settled" where
  "wms_branch d =
     (case sublayers d of
        None \<Rightarrow> Rejected TypeError
      | Some JNull \<Rightarrow> Rejected TypeError
      | Some j \<Rightarrow>
          Resolved (with_id d (set_prop ''subLayers[0]'' (index0 j)
                                 (new_layer WMSLayer (url d)))))"

text \<open>
  The GeoJSON branch (lines 139 to 162). \<^verbatim>\<open>Object.keys(noTypeLayer.data)\<close> throws on
  an absent or null \<^verbatim>\<open>data\<close>. A failed renderer inference is logged and the layer is
  resolved without the renderer.
\<close>

fun keys_nonempty :: "json \<Rightarrow> bool" where
  "keys_nonempty (JObj kv) = (kv \<noteq> [])"
| "keys_nonempty (JArr xs) = (xs \<noteq> [])"
| "keys_nonempty (JStr s) = (s \<noteq> [])"
| "keys_nonempty _ = False"

definition geoJSON_branch :: "env \<Rightarrow> noTypeLayer \<Rightarrow> typedLayer settled" where
  "geoJSON_branch e d =
     (case data d of
        None \<Rightarrow> Rejected TypeError
      | Some JNull \<Rightarrow> Rejected TypeError
      | Some j \<Rightarrow>
          (let u = (if keys_nonempty j then Some (createObjectURL e j) else url d);
               l = with_id d (new_layer GeoJSONLayer u)
           in if renderer d = None then Resolved l
              else
                (case get_prop (renderer d) ''type'' of
                   Inl err \<Rightarrow> Rejected err
                 | Inr t \<Rightarrow>
                     (case inferRenderer e t (RendererJson (renderer d)) of
                        Inr r \<Rightarrow> Resolved (set_prop ''renderer'' (Some r) l)
                      | Inl err \<Rightarrow> Resolved l))))"

text \<open>
  The CSV branch (lines 163 to 173): the renderer is read from
  \<^verbatim>\<open>layerDefinition.drawingInfo.renderer\<close>; when its inference fails the layer is built
  without it.
\<close>

definition csv_branch :: "env \<Rightarrow> noTypeLayer \<Rightarrow> typedLayer settled" where
  "csv_branch e d =
     (case get_prop (layerDefinition d) ''drawingInfo'' of
        Inl err \<Rightarrow> Rejected err
      | Inr di \<Rightarrow>
          (case get_prop di ''renderer'' of
             Inl err \<Rightarrow> Rejected err
           | Inr r \<Rightarrow>
               (case get_prop r ''type'' of
                  Inl err \<Rightarrow> Rejected err
                | Inr t \<Rightarrow>
                    (case inferRenderer e t (RendererJson r) of
                       Inr rr \<Rightarrow>
                         Resolved (with_id d (set_prop ''renderer'' (Some rr)
                                                (new_layer CSVLayer (url d))))
                     | Inl err \<Rightarrow> Resolved (with_id d (new_layer CSVLayer (url d)))))))"

text \<open>
  The FeatureLayer branch (lines 190 to 262). The layer is constructed, tagged and loaded;
  a failed load rejects. After the load the popup, the opacity and the definition
  expression are applied, first from \<^verbatim>\<open>lyr_options\<close> and then from the descriptor.
  Without a renderer the layer is resolved; otherwise the renderer is inferred, and a failed
  inference rejects. An exception inside the callback is caught by the \<^verbatim>\<open>catch\<close> of the
  load and rejects as well.
\<close>

definition lyr_options_of :: "noTypeLayer \<Rightarrow> lyrOptions" where
  "lyr_options_of d =
     (case options d of
        None \<Rightarrow> OfDescriptor d
      | Some JNull \<Rightarrow> OfDescriptor d
      | Some j \<Rightarrow> OfOptions j)"

definition set_unless_null :: "string \<Rightarrow> json option \<Rightarrow> typedLayer \<Rightarrow> typedLayer" where
  "set_unless_null k v l = (if nullish v then l else set_prop k v l)"

definition resolve_with_renderer :: "typedLayer \<Rightarrow> error + json \<Rightarrow> typedLayer settled" where
  "resolve_with_renderer l res =
     (case res of
        Inr r \<Rightarrow> Resolved (set_prop ''renderer'' (Some r) l)
      | Inl err \<Rightarrow> Rejected err)"

definition featureLayer_loaded :: "env \<Rightarrow> noTypeLayer \<Rightarrow> typedLayer \<Rightarrow> typedLayer settled" where
  "featureLayer_loaded e d loaded =
     (let lyr_options = lyr_options_of d;
          layer =
            set_unless_null ''definitionExpression'' (definition_expression d)
              (set_unless_null ''definitionExpression''
                 (lyr_prop lyr_options ''definition_expression'')
                 (set_unless_null ''opacity'' (opacity d)
                    (set_unless_null ''opacity'' (lyr_prop lyr_options ''opacity'')
                       (set_prop ''popupTemplate''
                          (Some (createDefaultPopup e loaded)) loaded))));
          r = lyr_prop lyr_options ''renderer''
      in if falsy r then Resolved layer
         else
           (let rendererOptions =
                  (if isSmartMapRenderer e r
                   then SmartMapOptions layer (lyr_prop lyr_options ''field_name'')
                          (basemap e) lyr_options
                   else LyrOptions lyr_options)
            in case r of
                 Some (JStr s) \<Rightarrow>
                   resolve_with_renderer layer (inferRenderer e r rendererOptions)
               | _ \<Rightarrow>
                   (case has_key ''type'' r of
                      Inl err \<Rightarrow> Rejected err
                    | Inr True \<Rightarrow>
                        resolve_with_renderer layer
                          (inferRenderer e (obj_get r ''type'') (RendererJson r))
                    | Inr False \<Rightarrow>
                        resolve_with_renderer layer (inferRenderer e r rendererOptions))))"

definition featureLayer_branch :: "env \<Rightarrow> noTypeLayer \<Rightarrow> typedLayer settled" where
  "featureLayer_branch e d =
     (let unloadedLayer =
            with_id d (set_prop ''outFields'' (Some (JArr [JStr ''*'']))
                         (new_layer FeatureLayer (url d)))
      in case load e unloadedLayer of
           Some err \<Rightarrow> Rejected err
         | None \<Rightarrow> featureLayer_loaded e d unloadedLayer)"

text \<open>
  The feature collection branch (lines 263 to 311), taken when no type tag matched and the
  descriptor has a \<^verbatim>\<open>featureSet\<close>. The code assigns \<^verbatim>\<open>spatialReference\<close> and
  \<^verbatim>\<open>fields\<close> onto the descriptor's \<^verbatim>\<open>featureSet\<close> (which stays changed for the
  caller) and hands it to the vendor's \<^verbatim>\<open>FeatureSet.fromJSON\<close>. An object or an array
  takes the assigned properties; on a string, a number or a boolean the assignment has no
  effect. \<open>assigned x ps\<close> is the list of properties that \<open>x\<close> carries after the
  assignments \<open>ps\<close>, beside its own content.
\<close>

fun takes_properties :: "json \<Rightarrow> bool" where
  "takes_properties (JObj kv) = True"
| "takes_properties (JArr xs) = True"
| "takes_properties j = False"

definition assigned :: "json \<Rightarrow> (string \<times> json option) list \<Rightarrow> (string \<times> json option) list" where
  "assigned x ps = (if takes_properties x then ps else [])"

definition featureCollection_renderer ::
  "noTypeLayer \<Rightarrow> error + json option" where
  "featureCollection_renderer d =
     (case has_key ''renderer'' (options d) of
        Inl err \<Rightarrow> Inl err
      | Inr True \<Rightarrow> Inr (obj_get (options d) ''renderer'')
      | Inr False \<Rightarrow>
          (case get_prop (layerDefinition d) ''drawingInfo'' of
             Inl err \<Rightarrow> Inl err
           | Inr di \<Rightarrow>
               (case get_prop di ''renderer'' of
                  Inl err \<Rightarrow> Inl err
                | Inr r \<Rightarrow>
                    (case get_prop r ''renderer'' of
                       Inl err \<Rightarrow> Inl err
                     | Inr rr \<Rightarrow>
                         (if rr = Some (JStr ''autocast'')
                          then Inr (Some (JStr ''autocast''))
                          else Inr (obj_get r ''type''))))))"

definition featureCollection_rendererOptions ::
  "env \<Rightarrow> noTypeLayer \<Rightarrow> typedLayer \<Rightarrow> json option \<Rightarrow> error + rendererOptions" where
  "featureCollection_rendererOptions e d l r =
     (if isSmartMapRenderer e r
      then (case get_prop (options d) ''field_name'' of
              Inl err \<Rightarrow> Inl err
            | Inr fieldName \<Rightarrow>
                (case options d of
                   Some opts \<Rightarrow> Inr (SmartMapOptions l fieldName (basemap e) (OfOptions opts))
                 | None \<Rightarrow> Inl TypeError))
      else (case get_prop (layerDefinition d) ''drawingInfo'' of
              Inl err \<Rightarrow> Inl err
            | Inr di \<Rightarrow>
                (case get_prop di ''renderer'' of
                   Inl err \<Rightarrow> Inl err
                 | Inr r \<Rightarrow> Inr (RendererJson r))))"

definition featureCollection_branch :: "env \<Rightarrow> noTypeLayer \<Rightarrow> typedLayer settled" where
  "featureCollection_branch e d =
     (case get_prop (layerDefinition d) ''spatialReference'' of
        Inl err \<Rightarrow> Rejected err
      | Inr sr \<Rightarrow>
          (case featureSet d of
             None \<Rightarrow> Rejected TypeError
           | Some JNull \<Rightarrow> Rejected TypeError
           | Some esriJSONFS \<Rightarrow>
               (let fs = Some (featureSet_fromJSON e esriJSONFS
                           (assigned esriJSONFS
                              [(''spatialReference'', sr),
                               (''fields'', obj_get (layerDefinition d) ''fields'')]));
                    constructed =
                      set_prop ''source'' (obj_get fs ''features'')
                        (set_prop ''spatialReference'' (obj_get fs ''spatialReference'')
                           (set_prop ''geometryType'' (obj_get fs ''geometryType'')
                              (set_prop ''objectIdField''
                                 (obj_get (layerDefinition d) ''objectIdField'')
                                 (set_prop ''fields'' (obj_get fs ''fields'')
                                    (set_prop ''title'' (Some (JStr (uuid4 e)))
                                       (new_layer FeatureLayer None))))));
                    typedLayer =
                      with_id d (set_prop ''popupTemplate''
                                   (Some (createDefaultPopup e constructed)) constructed)
                in case featureCollection_renderer d of
                     Inl err \<Rightarrow> Rejected err
                   | Inr r \<Rightarrow>
                       (case featureCollection_rendererOptions e d typedLayer r of
                          Inl err \<Rightarrow> Rejected err
                        | Inr rendererOptions \<Rightarrow>
                            resolve_with_renderer typedLayer
                              (inferRenderer e r rendererOptions)))))"

subsection \<open>The layer dispatcher: \<^verbatim>\<open>inferNoTypeLayer\<close>\<close>

text \<open>
  The chain of comparisons of the callback that runs once the modules have loaded, in the
  order of the source. Each comparison is equality of strings.
\<close>

definition unsupported_msg :: string where
  "unsupported_msg = ''This layer type is not supported.''"

definition dispatch :: "env \<Rightarrow> noTypeLayer \<Rightarrow> typedLayer settled" where
  "dispatch e d =
     (let t = layer_type d in
      if t = Some ''ImageryLayer'' then imageryLayer_branch e d
      else if t = Some ''KMLLayer'' \<or> t = Some ''KML''
        then Resolved (with_id d (new_layer KMLLayer (url d)))
      else if t = Some ''ArcGISTiledMapServiceLayer'' \<or> t = Some ''TileLayer''
        then Resolved (with_id d (new_layer TileLayer (url d)))
      else if t = Some ''ArcGISDynamicMapServiceLayer'' \<or> t = Some ''MapImageLayer''
        then Resolved (with_id d (new_layer MapImageLayer (url d)))
      else if t = Some ''VectorTileLayer''
        then Resolved (with_id d (new_layer VectorTileLayer (url d)))
      else if t = Some ''WMS'' then wms_branch d
      else if t = Some ''WebTiledLayer''
        then Resolved (with_id d (new_layer WMTSLayer (url d)))
      else if t = Some ''GeoRSS''
        then Resolved (with_id d (new_layer GeoRSSLayer (url d)))
      else if t = Some ''GeoJSON'' then geoJSON_branch e d
      else if t = Some ''CSV'' then csv_branch e d
      else if t = Some ''SceneLayer''
        then Resolved (with_id d (new_layer SceneLayer (url d)))
      else if t = Some ''PointCloudLayer''
        then Resolved (with_id d (new_layer PointCloudLayer (url d)))
      else if t = Some ''IntegratedMeshLayer''
        then Resolved (with_id d (new_layer IntegratedMeshLayer (url d)))
      else if t = Some ''BuildingSceneLayer''
        then Resolved (with_id d (new_layer BuildingSceneLayer (url d)))
      else if t = Some ''FeatureLayer'' \<or> t = Some ''Feature Layer''
        then featureLayer_branch e d
      else if featureSet d \<noteq> None then featureCollection_branch e d
      else Rejected (ErrString unsupported_msg))"

text \<open>
  \<^verbatim>\<open>inferNoTypeLayer\<close>: the promise rejects with the loader's error when the modules do
  not load, and settles as the callback decides otherwise.
\<close>

definition inferNoTypeLayer :: "env \<Rightarrow> noTypeLayer \<Rightarrow> typedLayer settled" where
  "inferNoTypeLayer e d =
     (case loadModules e of
        Some err \<Rightarrow> Rejected err
      | None \<Rightarrow> dispatch e d)"

text \<open>The tags the chain compares against, and a descriptor and collaborators for runs.\<close>

definition known_tags :: "string list" where
  "known_tags =
     [''ImageryLayer'', ''KMLLayer'', ''KML'', ''ArcGISTiledMapServiceLayer'', ''TileLayer'',
      ''ArcGISDynamicMapServiceLayer'', ''MapImageLayer'', ''VectorTileLayer'', ''WMS'',
      ''WebTiledLayer'', ''GeoRSS'', ''GeoJSON'', ''CSV'', ''SceneLayer'',
      ''PointCloudLayer'', ''IntegratedMeshLayer'', ''BuildingSceneLayer'',
      ''FeatureLayer'', ''Feature Layer'']"

definition descriptor :: "string \<Rightarrow> string \<Rightarrow> string \<Rightarrow> noTypeLayer" where
  "descriptor t u h =
     \<lparr>layer_type = Some t, url = Some (JStr u), hashFromPython = Some h,
      capabilities = None, options = None, data = None, renderer = None,
      sublayers = None, layerDefinition = None, featureSet = None, opacity = None,
      definition_expression = None, field_name = None\<rparr>"

definition env_ok :: env where
  "env_ok =
     \<lparr>loadModules = None,
      inferRenderer = (\<lambda>r ro. Inr (JStr ''renderer'')),
      isSmartMapRenderer = (\<lambda>r. False),
      load = (\<lambda>l. None),
      fromJSON = (\<lambda>j. case j of None \<Rightarrow> JNull | Some v \<Rightarrow> v),
      featureSet_fromJSON = (\<lambda>j ps. j),
      btoa_stringify = (\<lambda>j. ''encoded''),
      createObjectURL = (\<lambda>j. JStr ''blob:1''),
      createDefaultPopup = (\<lambda>l. JStr ''popup''),
      uuid4 = ''00000000-0000-4000-8000-000000000000'',
      basemap = JStr ''topo''\<rparr>"

subsection \<open>The widget view: its state\<close>

text \<open>
  The attributes of the Backbone model that the modelled handlers read or write, with the
  types the host gives them. \<open>m_x\<close> stands for the attribute \<^verbatim>\<open>_x\<close>.
\<close>

record attrs =
  m_zoom :: real
  m_readonly_zoom :: real
  m_scale :: real
  m_readonly_scale :: real
  m_readonly_rotation :: real
  m_readonly_heading :: real
  m_readonly_tilt :: real
  m_readonly_center :: json
  m_readonly_extent :: json
  m_layers_to_remove :: "string list"
  m_auth_mode :: string
  m_portal_url :: string
  m_portal_sharing_rest_url :: string
  m_portal_token :: string
  m_username :: string

text \<open>The vendor's views: the properties of a MapView or SceneView that the code reads or sets.\<close>

record camera =
  heading :: real
  tilt :: real

record view =
  view_zoom :: real
  view_scale :: real
  view_rotation :: real
  view_camera :: "camera option"
  view_center :: "json option"
  view_extent :: "json option"

datatype viewKind = View2D | View3D

text \<open>
  A vendor Portal object: the options it was constructed with and its \<^verbatim>\<open>loaded\<close>
  flag. Portal objects live in a store and are named by their index, so that two objects
  constructed alike stay distinct.
\<close>

datatype portalOptions =
    AnonymousPortal
  | UrlPortal string
  | ImmediatePortal "string option"

record portalObj =
  portal_options :: portalOptions
  loaded :: bool

text \<open>
  A layer on the vendor's map: the layer itself and, for a group layer, the layers nested in
  it. A layer object is named by its position, the path of indices that leads to it.
\<close>

datatype mapLayer = MapLayer typedLayer "mapLayer list"

text \<open>A call whose effect on the view happens in a later callback.\<close>

datatype deferredCall = ApplyHeading real | ApplyTilt real

text \<open>
  The state a callback of the view can see or change: the Backbone model with the names of
  its buffered changes (\<open>pending\<close>), whether its comm to the kernel is open
  (\<open>comm_live\<close>), the patches that \<^verbatim>\<open>save_changes\<close> has passed to the host's sync
  (\<open>synced\<close>) and the change handlers its events have invoked (\<open>triggered\<close>); the
  two views and which one is active; the layers of the map; the error box, the console and the loading
  indicator; the portal objects, the widget's \<^verbatim>\<open>_portal\<close> and \<^verbatim>\<open>_portalToken\<close>, the
  module-level \<^verbatim>\<open>globalTokenLookup\<close>, and the vendor's identity configuration.
\<close>

record widget =
  model :: attrs
  pending :: "string list"
  comm_live :: bool
  synced :: "string list list"
  triggered :: "string list"
  mapView :: view
  sceneView :: view
  activeView :: viewKind
  deferred :: "deferredCall list"
  map_layers :: "mapLayer list"
  errorTextBox :: string
  errorBox_in_document :: bool
  console :: "string list"
  loading :: bool
  uuid :: string
  portals :: "portalObj list"
  w_portal :: "nat option"
  w_portalToken :: "string option"
  globalTokenLookup :: "(string \<times> string) list"
  esri_portalUrl :: "string option"
  registeredServers :: "string list"
  registeredTokens :: "(string \<times> string \<times> string) list"
  trustedServers :: "string list"

subsection \<open>The widget view: the Backbone model and its change events\<close>

text \<open>
  Every \<^verbatim>\<open>this.model.on('change:...', handler, this)\<close> of \<^verbatim>\<open>render\<close> (lines 93 to
  145) and of \<^verbatim>\<open>_setup_js_cdn\<close> (line 413), in the order of the source.
\<close>

definition change_handlers :: "(string \<times> string) list" where
  "change_handlers =
     [(''mode'', ''mode_changed''),
      (''_basemap'', ''basemap_changed''),
      (''_zoom'', ''zoom_changed''),
      (''_scale'', ''scale_changed''),
      (''_snap_to_zoom'', ''snap_to_zoom_changed''),
      (''_rotation'', ''rotation_changed''),
      (''_link_writeonly_rotation'', ''link_rotation_changed''),
      (''_heading'', ''heading_changed''),
      (''_link_writeonly_heading'', ''link_heading_changed''),
      (''_tilt'', ''tilt_changed''),
      (''_link_writeonly_tilt'', ''link_tilt_changed''),
      (''_extent'', ''extent_changed''),
      (''_link_writeonly_extent'', ''link_extent_changed''),
      (''_center'', ''center_changed''),
      (''_center_long_lat'', ''center_long_lat_changed''),
      (''_func_chains'', ''func_chains_changed''),
      (''_add_this_notype_layer'', ''add_this_notype_layer_changed''),
      (''_layers_to_remove'', ''layers_to_remove_changed''),
      (''_add_this_graphic'', ''graphics_changed''),
      (''_webmap'', ''webmap_changed''),
      (''_webscene'', ''webscene_changed''),
      (''_trigger_webscene_save_to_this_portal_id'', ''save_webscene''),
      (''_trigger_screenshot_with_args'', ''_trigger_screenshot_with_args_changed''),
      (''_overlay_this_image'', ''overlay_image_changed''),
      (''_image_overlays_to_remove'', ''image_overlays_to_remove_changed''),
      (''time_slider'', ''time_slider_prop_changed''),
      (''time_mode'', ''time_mode_changed''),
      (''_time_info'', ''time_info_changed''),
      (''_writeonly_start_time'', ''start_time_changed''),
      (''_writeonly_end_time'', ''end_time_changed''),
      (''_portal_token'', ''portal_token_changed''),
      (''_custom_msg'', ''custom_msg_changed''),
      (''hide_mode_switch'', ''hide_mode_switch_changed''),
      (''_trigger_interactive_draw_mode_for'', ''interactive_draw_shape''),
      (''_trigger_new_jlab_window_with_args'', ''trigger_jlab_window_changed''),
      (''_js_cdn_override'', ''js_cdn_changed''),
      (''legend'', ''legend_prop_changed''),
      (''_trigger_print_js_debug_info'', ''trigger_print_js_debug_info_changed''),
      (''_js_cdn_override'', ''js_cdn_changed'')]"

definition handlers_of :: "string \<Rightarrow> string list" where
  "handlers_of a = map snd (filter (\<lambda>p. fst p = a) change_handlers)"


text \<open>
  \<^verbatim>\<open>model.set(name, value)\<close>: when the value differs from the stored one it is stored,
  the attribute joins the buffered changes, and the event \<^verbatim>\<open>change:name\<close> invokes the
  handlers registered for it. \<open>upd\<close> is the update of the attribute called \<open>name\<close>.
  \<^verbatim>\<open>model.save_changes()\<close> is the host's: while the comm is open it passes the
  buffered changes as one patch to the host's sync and empties the buffer; an empty patch
  produces no message, and with the comm closed nothing happens. The host sends a patch to
  the kernel at once, or with its next message while the kernel has not yet acknowledged an
  earlier one.
\<close>

definition model_set :: "string \<Rightarrow> (attrs \<Rightarrow> attrs) \<Rightarrow> widget \<Rightarrow> widget" where
  "model_set name upd w =
     (if upd (model w) = model w then w
      else w\<lparr>model := upd (model w),
             pending := pending w @ [name],
             triggered := triggered w @ handlers_of name\<rparr>)"

definition save_changes :: "widget \<Rightarrow> widget" where
  "save_changes w =
     (if comm_live w \<and> pending w \<noteq> []
      then w\<lparr>synced := synced w @ [pending w], pending := []\<rparr>
      else w)"

definition active :: "widget \<Rightarrow> view" where
  "active w = (case activeView w of View2D \<Rightarrow> mapView w | View3D \<Rightarrow> sceneView w)"

definition active_update :: "(view \<Rightarrow> view) \<Rightarrow> widget \<Rightarrow> widget" where
  "active_update f w =
     (case activeView w of
        View2D \<Rightarrow> w\<lparr>mapView := f (mapView w)\<rparr>
      | View3D \<Rightarrow> w\<lparr>sceneView := f (sceneView w)\<rparr>)"

subsection \<open>The widget view: the error box\<close>

text \<open>
  Modelled from the spec: the helper \<^verbatim>\<open>elements/display-purejs-error-box\<close> that
  \<^verbatim>\<open>_displayErrorBox\<close> calls is not among the sources. Following the error sink of the
  spec ("if no message is currently displayed, show the new one ... replace its content"),
  it makes the given text the content of the error text box.
\<close>

definition displayPureJSErrorBox :: "string \<Rightarrow> widget \<Rightarrow> widget" where
  "displayPureJSErrorBox msg w = w\<lparr>errorTextBox := msg\<rparr>"

definition console_warn :: "string \<Rightarrow> widget \<Rightarrow> widget" where
  "console_warn line w = w\<lparr>console := console w @ [line]\<rparr>"

definition multiple_messages_info :: string where
  "multiple_messages_info =
     ''Multiple messages attempted to display. See browser console to view all messages''"

text \<open>
  The text \<^verbatim>\<open>_displayErrorBox(msg, browser_console_message = true)\<close> works with (lines
  207 to 212): the default text when \<^verbatim>\<open>msg\<close> is missing or empty, else the message,
  with the pointer to the browser console appended unless the flag is false.
\<close>

definition display_text :: "string option \<Rightarrow> bool \<Rightarrow> string" where
  "display_text msg browser_console_message =
     (case msg of
        None \<Rightarrow> ''Unhandled Error! See the browser console for more info.''
      | Some m \<Rightarrow>
          (if m = [] then ''Unhandled Error! See the browser console for more info.''
           else if browser_console_message
             then m @ '' See the browser console for more info.''
           else m))"

definition displayErrorBox :: "string option \<Rightarrow> bool \<Rightarrow> widget \<Rightarrow> widget" where
  "displayErrorBox msg browser_console_message w =
     (let text = display_text msg browser_console_message;
          w1 = w\<lparr>loading := False, errorBox_in_document := True\<rparr>
      in if errorTextBox w1 = [] then displayPureJSErrorBox text w1
         else
           (let w2 = (if errorTextBox w1 \<noteq> multiple_messages_info
                      then console_warn (''*****MESSAGE_BOX: '' @ errorTextBox w1) w1
                      else w1);
                w3 = console_warn (''*****MESSAGE_BOX: '' @ text) w2
            in displayPureJSErrorBox multiple_messages_info w3))"

subsection \<open>The widget view: zoom and scale, from the store to the surface\<close>

text \<open>
  \<^verbatim>\<open>zoom_changed\<close> (lines 563 to 574) and \<^verbatim>\<open>scale_changed\<close> (lines 576 to 588). The
  calls inside the \<^verbatim>\<open>try\<close> are reads and writes of the model and an assignment to the
  active view, none of which throws here, so the \<^verbatim>\<open>catch\<close> with its error box is not
  entered.
\<close>

definition zoom_changed :: "widget \<Rightarrow> widget" where
  "zoom_changed w =
     (let zoom = m_zoom (model w);
          w1 = model_set ''_readonly_zoom'' (\<lambda>a. a\<lparr>m_readonly_zoom := zoom\<rparr>) w;
          w2 = (if zoom \<ge> 0 then active_update (\<lambda>v. v\<lparr>view_zoom := zoom\<rparr>) w1 else w1)
      in save_changes w2)"

definition scale_changed :: "widget \<Rightarrow> widget" where
  "scale_changed w =
     (let scale = m_scale (model w);
          w1 = model_set ''_readonly_scale'' (\<lambda>a. a\<lparr>m_readonly_scale := scale\<rparr>) w;
          w2 = save_changes w1
      in if scale \<ge> 1 then active_update (\<lambda>v. v\<lparr>view_scale := scale\<rparr>) w2 else w2)"

subsection \<open>The widget view: the stationary callbacks, from the surface to the store\<close>











subsection \<open>The widget view: removing layers\<close>

text \<open>
  The vendor's \<^verbatim>\<open>Map.findLayerById\<close> looks through the layers of the map and through
  the layers nested in group layers, a layer before the layers nested in it, and returns
  the first layer with the given id (or nothing). \<^verbatim>\<open>Map.remove\<close> takes the given layer
  out of the map's own collection of layers: a layer nested in a group layer is not in that
  collection, and removing it from the map changes nothing.
\<close>

fun findLayer :: "string \<Rightarrow> mapLayer \<Rightarrow> nat list option"
  and findLayers :: "string \<Rightarrow> nat \<Rightarrow> mapLayer list \<Rightarrow> nat list option" where
  "findLayer layerId (MapLayer l nested) =
     (if layer_id l = Some layerId then Some [] else findLayers layerId 0 nested)"
| "findLayers layerId i [] = None"
| "findLayers layerId i (x # xs) =
     (case findLayer layerId x of
        Some path \<Rightarrow> Some (i # path)
      | None \<Rightarrow> findLayers layerId (Suc i) xs)"

definition findLayerById :: "mapLayer list \<Rightarrow> string \<Rightarrow> nat list option" where
  "findLayerById ls layerId = findLayers layerId 0 ls"

definition map_remove :: "nat list \<Rightarrow> mapLayer list \<Rightarrow> mapLayer list" where
  "map_remove layer ls = (case layer of [i] \<Rightarrow> removeAt i ls | _ \<Rightarrow> ls)"

text \<open>
  The \<^verbatim>\<open>do ... while(layerExistsOnMap)\<close> of \<^verbatim>\<open>layers_to_remove_changed\<close> (lines 963 to
  970): look the id up, remove the layer found, and repeat while one was found. Nothing in
  the loop bounds the number of rounds, so it is a partial function: \<open>None\<close> stands for a
  loop that never ends.
\<close>

partial_function (option) remove_while_exists ::
  "string \<Rightarrow> mapLayer list \<Rightarrow> mapLayer list option" where
  "remove_while_exists layerId ls =
     (case findLayerById ls layerId of
        Some layer \<Rightarrow> remove_while_exists layerId (map_remove layer ls)
      | None \<Rightarrow> Some ls)"

text \<open>
  \<^verbatim>\<open>layers_to_remove_changed\<close> (lines 957 to 976): the loop above for every id of
  \<^verbatim>\<open>_layers_to_remove\<close>, in order. The handler returns only if every loop ends.
\<close>

fun remove_each :: "string list \<Rightarrow> mapLayer list \<Rightarrow> mapLayer list option" where
  "remove_each [] ls = Some ls"
| "remove_each (layerId # ids) ls =
     (case remove_while_exists layerId ls of
        Some ls' \<Rightarrow> remove_each ids ls'
      | None \<Rightarrow> None)"

definition layers_to_remove_changed :: "widget \<Rightarrow> widget option" where
  "layers_to_remove_changed w =
     (case remove_each (m_layers_to_remove (model w)) (map_layers w) of
        Some ls \<Rightarrow> Some (w\<lparr>map_layers := ls\<rparr>)
      | None \<Rightarrow> None)"

subsection \<open>The widget view: authenticating to the portal\<close>

text \<open>\<^verbatim>\<open>String.prototype.toLowerCase\<close> on the letters A to Z.\<close>

definition lower_char :: "char \<Rightarrow> char" where
  "lower_char c =
     (case map_of (zip ''ABCDEFGHIJKLMNOPQRSTUVWXYZ'' ''abcdefghijklmnopqrstuvwxyz'') c of
        Some l \<Rightarrow> l
      | None \<Rightarrow> c)"

definition toLowerCase :: "string \<Rightarrow> string" where
  "toLowerCase s = map lower_char s"

text \<open>
  \<^verbatim>\<open>portal_token_changed\<close> (lines 1129 to 1143): a token that arrives in the model is
  moved to the widget and to the global lookup, and the model's attribute is emptied.
\<close>

definition portal_token_changed :: "widget \<Rightarrow> widget" where
  "portal_token_changed w =
     (let token = m_portal_token (model w) in
      if token \<noteq> [] then
        save_changes
          (model_set ''_portal_token'' (\<lambda>a. a\<lparr>m_portal_token := []\<rparr>)
             (w\<lparr>w_portalToken := Some token,
                globalTokenLookup :=
                  (uuid w, token) # filter (\<lambda>p. fst p \<noteq> uuid w) (globalTokenLookup w)\<rparr>))
      else w)"

text \<open>\<^verbatim>\<open>get_portal_token\<close> (lines 1145 to 1156).\<close>

definition get_portal_token :: "widget \<Rightarrow> string" where
  "get_portal_token w =
     (case w_portalToken w of
        Some t \<Rightarrow>
          (if t \<noteq> [] then t
           else (case map_of (globalTokenLookup w) (uuid w) of
                   Some g \<Rightarrow> g
                 | None \<Rightarrow> m_portal_token (model w)))
      | None \<Rightarrow>
          (case map_of (globalTokenLookup w) (uuid w) of
             Some g \<Rightarrow> g
           | None \<Rightarrow> m_portal_token (model w)))"

text \<open>
  The promise of \<^verbatim>\<open>authenticate_to_portal\<close> after the callback that runs once the
  modules have loaded: settled, or waiting for the \<^verbatim>\<open>load()\<close> of the portal object it
  has just constructed.
\<close>

datatype authOutcome = Settled "nat option settled" | Loading nat

definition new_Portal :: "portalOptions \<Rightarrow> widget \<Rightarrow> widget" where
  "new_Portal opts w =
     w\<lparr>portals := portals w @ [\<lparr>portal_options = opts, loaded = False\<rparr>],
       w_portal := Some (length (portals w))\<rparr>"

text \<open>
  \<^verbatim>\<open>('_portal' in this) && (this._portal.loaded)\<close>: the portal object of the widget,
  when there is one and it is loaded.
\<close>

definition loaded_portal :: "widget \<Rightarrow> nat option" where
  "loaded_portal w =
     (case w_portal w of
        Some p \<Rightarrow> (if p < length (portals w) \<and> loaded (portals w ! p) then Some p else None)
      | None \<Rightarrow> None)"

definition undefined_or :: "string option \<Rightarrow> string" where
  "undefined_or s = (case s of None \<Rightarrow> ''undefined'' | Some t \<Rightarrow> t)"

definition rejMsg :: "widget \<Rightarrow> string" where
  "rejMsg w =
     ''_portal_url, _portal_sharing_rest_url, and _portal_token '' @
     ''must be specified to authenticate in 'tokenBased' auth mode. '' @
     ''_portal_url = '' @ m_portal_url (model w) @ '', _portal_sharing_rest_url = '' @
     m_portal_sharing_rest_url (model w) @ '', _portal_token = '' @
     undefined_or (w_portalToken w)"

definition set_portalUrl :: "widget \<Rightarrow> widget" where
  "set_portalUrl w =
     (if m_portal_url (model w) \<noteq> [] then w\<lparr>esri_portalUrl := Some (m_portal_url (model w))\<rparr>
      else w)"

text \<open>
  The callback of \<^verbatim>\<open>authenticate_to_portal\<close> (lines 1173 to 1240), in the order of its
  branches: a loaded \<^verbatim>\<open>_portal\<close> is resolved at once; otherwise the mode decides.
\<close>

definition authenticate_callback :: "widget \<Rightarrow> widget \<times> authOutcome" where
  "authenticate_callback w =
     (let auth_mode = toLowerCase (m_auth_mode (model w)) in
      if loaded_portal w \<noteq> None then (w, Settled (Resolved (w_portal w)))
      else if auth_mode = ''anonymous'' then
        (new_Portal AnonymousPortal (set_portalUrl w), Loading (length (portals w)))
      else if auth_mode = ''tokenbased'' then
        (let portal_url = m_portal_url (model w);
             portal_sharing_rest_url = m_portal_sharing_rest_url (model w);
             portal_token = get_portal_token w
         in if \<not> (portal_url \<noteq> [] \<and> portal_sharing_rest_url \<noteq> [] \<and> portal_token \<noteq> [])
            then (w, Settled (Rejected (ErrString (rejMsg w))))
            else
              (new_Portal (UrlPortal portal_url)
                 (w\<lparr>registeredServers := registeredServers w @ [portal_sharing_rest_url],
                    registeredTokens := registeredTokens w @
                      [(portal_sharing_rest_url, m_username (model w), portal_token)],
                    trustedServers := trustedServers w @ [portal_url]\<rparr>),
               Loading (length (portals w))))
      else if auth_mode = ''prompt'' then
        (let w1 = set_portalUrl w
         in (new_Portal (ImmediatePortal (esri_portalUrl w1)) w1, Loading (length (portals w))))
      else
        (w, Settled (Rejected (ErrString
           (''You must specify the '_auth_mode' model variable to '' @
            ''either 'anonymous', 'tokenbased', or 'prompt'' @ [CHR 0x27])))))"

text \<open>
  \<^verbatim>\<open>authenticate_to_portal\<close> (lines 1158 to 1244): when the modules cannot be loaded the
  promise rejects with the loader's error, otherwise the callback runs.
\<close>

definition authenticate_to_portal :: "error option \<Rightarrow> widget \<Rightarrow> widget \<times> authOutcome" where
  "authenticate_to_portal modules w =
     (case modules of
        Some err \<Rightarrow> (w, Settled (Rejected err))
      | None \<Rightarrow> authenticate_callback w)"

text \<open>
  The \<^verbatim>\<open>load()\<close> of portal \<open>p\<close> settles. On success the vendor marks the object loaded
  and the waiting call resolves with whatever \<^verbatim>\<open>this._portal\<close> is by then; on failure it
  rejects.
\<close>

definition portal_load_settles ::
  "nat \<Rightarrow> error option \<Rightarrow> widget \<Rightarrow> widget \<times> nat option settled" where
  "portal_load_settles p failure w =
     (case failure of
        Some err \<Rightarrow> (w, Rejected err)
      | None \<Rightarrow>
          (let w1 = w\<lparr>portals := (portals w)[p := (portals w ! p)\<lparr>loaded := True\<rparr>]\<rparr>
           in (w1, Resolved (w_portal w1))))"

text \<open>A widget as it is constructed, with the defaults of the model, for concrete runs.\<close>

definition model0 :: attrs where
  "model0 =
     \<lparr>m_zoom = - 1, m_readonly_zoom = - 1, m_scale = - 1, m_readonly_scale = - 1,
      m_readonly_rotation = 0, m_readonly_heading = 0, m_readonly_tilt = 0,
      m_readonly_center = JObj [], m_readonly_extent = JObj [],
      m_layers_to_remove = [], m_auth_mode = [], m_portal_url = [],
      m_portal_sharing_rest_url = [], m_portal_token = [], m_username = []\<rparr>"

definition view0 :: view where
  "view0 =
     \<lparr>view_zoom = 2, view_scale = 147914382, view_rotation = 0, view_camera = None,
      view_center = None, view_extent = None\<rparr>"

definition widget0 :: widget where
  "widget0 =
     \<lparr>model = model0, pending = [], comm_live = True, synced = [], triggered = [],
      mapView = view0, sceneView = view0, activeView = View2D, deferred = [],
      map_layers = [], errorTextBox = [], errorBox_in_document = False, console = [],
      loading = True, uuid = ''w1'', portals = [], w_portal = None, w_portalToken = None,
      globalTokenLookup = [], esri_portalUrl = None, registeredServers = [],
      registeredTokens = [], trustedServers = []\<rparr>"



text \<open>
  Two widgets asked to remove layers. The map of \<open>widget_with_layers\<close> holds three
  layers of its own, two of them with the id "dup". The map of \<open>widget_nested\<close> holds one
  group layer with the id "group", in which a layer with the id "x" is nested, as a web
  map with a group layer gives it; the id "x" is to be removed.
\<close>

definition leaf :: "layerCtor \<Rightarrow> string \<Rightarrow> mapLayer" where
  "leaf c i = MapLayer \<lparr>ctor = c, layer_url = None, layer_id = Some i, props = []\<rparr> []"

definition widget_with_layers :: widget where
  "widget_with_layers =
     widget0\<lparr>model := model0\<lparr>m_layers_to_remove := [''dup'', ''absent'']\<rparr>,
             map_layers := [leaf TileLayer ''dup'', leaf KMLLayer ''keep'',
                            leaf FeatureLayer ''dup'']\<rparr>"

definition widget_nested :: widget where
  "widget_nested =
     widget0\<lparr>model := model0\<lparr>m_layers_to_remove := [''x'']\<rparr>,
             map_layers :=
               [MapLayer \<lparr>ctor = GroupLayer, layer_url = None, layer_id = Some ''group'',
                          props = []\<rparr>
                  [leaf FeatureLayer ''x'']]\<rparr>"

text \<open>
  Widgets for runs of the authentication. \<open>widget_anonymous\<close> is configured for an
  anonymous connection, and \<open>widget_anonymous_loaded\<close> is that widget after one call
  whose portal has loaded. \<open>widget_token\<close> is configured for token-based authentication;
  in \<open>widget_token_loaded\<close> the token has been taken over by \<^verbatim>\<open>portal_token_changed\<close>,
  one call has been made and its portal has loaded; \<open>widget_rest_url_cleared\<close> is that
  state after the kernel has emptied \<^verbatim>\<open>_portal_sharing_rest_url\<close>.
  \<open>widget_token_missing_rest\<close> is configured for token-based authentication without the
  sharing-REST url from the start.
\<close>

definition widget_anonymous :: widget where
  "widget_anonymous = widget0\<lparr>model := model0\<lparr>m_auth_mode := ''anonymous''\<rparr>\<rparr>"

definition widget_anonymous_loaded :: widget where
  "widget_anonymous_loaded =
     fst (portal_load_settles 0 None (fst (authenticate_to_portal None widget_anonymous)))"

definition widget_token :: widget where
  "widget_token =
     widget0\<lparr>model := model0\<lparr>m_auth_mode := ''tokenBased'',
                              m_portal_url := ''https://portal'',
                              m_portal_sharing_rest_url := ''https://portal/sharing/rest/'',
                              m_portal_token := ''abc''\<rparr>\<rparr>"

definition widget_token_loaded :: widget where
  "widget_token_loaded =
     fst (portal_load_settles 0 None
            (fst (authenticate_to_portal None (portal_token_changed widget_token))))"

definition widget_rest_url_cleared :: widget where
  "widget_rest_url_cleared =
     widget_token_loaded\<lparr>model := (model widget_token_loaded)\<lparr>m_portal_sharing_rest_url := []\<rparr>\<rparr>"

definition widget_token_missing_rest :: widget where
  "widget_token_missing_rest =
     widget0\<lparr>model := model0\<lparr>m_auth_mode := ''tokenBased'',
                              m_portal_url := ''https://portal'',
                              m_portal_token := ''abc''\<rparr>\<rparr>"

text \<open>
  A run of four calls on \<open>widget_anonymous\<close>, every one made while the load of the first
  call's portal is still pending: three calls, then the load of the second call's portal
  settles, then a fourth call, then the load of the third call's portal settles. The
  widgets below are the states before each step after the first.
\<close>

definition widget_called_once :: widget where
  "widget_called_once = fst (authenticate_to_portal None widget_anonymous)"

definition widget_called_twice :: widget where
  "widget_called_twice = fst (authenticate_to_portal None widget_called_once)"

definition widget_called_thrice :: widget where
  "widget_called_thrice = fst (authenticate_to_portal None widget_called_twice)"

definition widget_second_settled :: widget where
  "widget_second_settled = fst (portal_load_settles 1 None widget_called_thrice)"

definition widget_called_again :: widget where
  "widget_called_again = fst (authenticate_to_portal None widget_second_settled)"

section \<open>Theorems\<close>

subsection \<open>Theorems: the image overlay layer\<close>

text \<open>
  C9. Claimed: after \<^verbatim>\<open>tryRemoveImageOverlays\<close> no overlay whose id is in the passed
  list remains, also when matching overlays are adjacent. The forward pass steps its index
  after a removal, so the overlay that slid into the freed slot is never examined: with
  overlays \<open>a, b\<close> and both ids passed, \<open>b\<close> survives.
\<close>

theorem tryRemoveImageOverlays_skips_adjacent:
  "tryRemoveImageOverlays [''a'', ''b''] [overlay ''a'', overlay ''b''] = [overlay ''b'']
   \<and> overlay_id (overlay ''b'') \<in> set [''a'', ''b'']"
  by (simp add: tryRemoveImageOverlays_def removeAt_def overlay_def)

subsection \<open>Theorems: the layer dispatcher\<close>

lemma layer_id_with_id: "layer_id (with_id d l) = hashFromPython d"
  by (simp add: with_id_def)

lemma layer_id_set_prop: "layer_id (set_prop k v l) = layer_id l"
  by (simp add: set_prop_def)

lemma layer_id_set_unless_null: "layer_id (set_unless_null k v l) = layer_id l"
  by (simp add: set_unless_null_def layer_id_set_prop)

lemma resolve_with_renderer_id:
  "resolve_with_renderer l0 res = Resolved l \<Longrightarrow> layer_id l = layer_id l0"
  by (auto simp: resolve_with_renderer_def layer_id_set_prop split: sum.splits)

lemma imageryLayer_branch_id:
  "imageryLayer_branch e d = Resolved l \<Longrightarrow> layer_id l = hashFromPython d"
  by (auto simp: imageryLayer_branch_def apply_imageServiceParameters_def Let_def
        layer_id_with_id layer_id_set_prop
      split: if_splits sum.splits bool.splits)

lemma wms_branch_id: "wms_branch d = Resolved l \<Longrightarrow> layer_id l = hashFromPython d"
  by (auto simp: wms_branch_def layer_id_with_id split: option.splits json.splits)

lemma geoJSON_branch_id:
  "geoJSON_branch e d = Resolved l \<Longrightarrow> layer_id l = hashFromPython d"
  by (auto simp: geoJSON_branch_def Let_def layer_id_with_id layer_id_set_prop
      split: option.splits json.splits sum.splits if_splits)

lemma csv_branch_id: "csv_branch e d = Resolved l \<Longrightarrow> layer_id l = hashFromPython d"
  by (auto simp: csv_branch_def layer_id_with_id layer_id_set_prop split: sum.splits)

lemma featureLayer_loaded_id:
  "featureLayer_loaded e d l0 = Resolved l \<Longrightarrow> layer_id l = layer_id l0"
  by (auto simp: featureLayer_loaded_def Let_def layer_id_set_prop layer_id_set_unless_null
      dest!: resolve_with_renderer_id
      split: option.splits json.splits sum.splits if_splits bool.splits)

lemma featureLayer_branch_id:
  "featureLayer_branch e d = Resolved l \<Longrightarrow> layer_id l = hashFromPython d"
  by (auto simp: featureLayer_branch_def Let_def layer_id_set_prop layer_id_with_id
      dest!: featureLayer_loaded_id split: option.splits)

lemma featureCollection_branch_id:
  "featureCollection_branch e d = Resolved l \<Longrightarrow> layer_id l = hashFromPython d"
  by (auto simp: featureCollection_branch_def Let_def layer_id_set_prop layer_id_with_id
      dest!: resolve_with_renderer_id split: option.splits json.splits sum.splits)

lemma dispatch_id: "dispatch e d = Resolved l \<Longrightarrow> layer_id l = hashFromPython d"
  unfolding dispatch_def Let_def
  by (auto simp: layer_id_with_id
      dest: imageryLayer_branch_id wms_branch_id geoJSON_branch_id csv_branch_id
        featureLayer_branch_id featureCollection_branch_id
      split: if_splits)

lemma dispatch_unknown:
  assumes "\<forall>t \<in> set known_tags. layer_type d \<noteq> Some t" and "featureSet d = None"
  shows "dispatch e d = Rejected (ErrString unsupported_msg)"
  using assms by (simp add: dispatch_def known_tags_def)

text \<open>
  C3. A descriptor whose type tag is none of the tags the dispatcher compares against, and
  which has no \<^verbatim>\<open>featureSet\<close>, is never resolved: the promise is rejected, with the
  message "This layer type is not supported." once the modules have loaded (and with the
  loader's own error if they could not be loaded at all).
\<close>

theorem inferNoTypeLayer_unsupported_rejects:
  assumes "\<forall>t \<in> set known_tags. layer_type d \<noteq> Some t" and "featureSet d = None"
  shows "inferNoTypeLayer e d =
           Rejected (case loadModules e of
                       None \<Rightarrow> ErrString ''This layer type is not supported.''
                     | Some err \<Rightarrow> err)"
  using dispatch_unknown [OF assms, of e]
  by (simp add: inferNoTypeLayer_def unsupported_msg_def split: option.splits)

theorem inferNoTypeLayer_unsupported_rejects_witness:
  "layer_type (descriptor ''FooLayer'' ''https://x'' ''h1'') = Some ''FooLayer''
   \<and> ''FooLayer'' \<notin> set known_tags
   \<and> featureSet (descriptor ''FooLayer'' ''https://x'' ''h1'') = None
   \<and> inferNoTypeLayer env_ok (descriptor ''FooLayer'' ''https://x'' ''h1'') =
       Rejected (ErrString ''This layer type is not supported.'')"
proof -
  have tags: "\<forall>t \<in> set known_tags.
      layer_type (descriptor ''FooLayer'' ''https://x'' ''h1'') \<noteq> Some t"
    by (simp add: known_tags_def descriptor_def)
  have fs: "featureSet (descriptor ''FooLayer'' ''https://x'' ''h1'') = None"
    by (simp add: descriptor_def)
  show ?thesis
    using fs inferNoTypeLayer_unsupported_rejects [OF tags fs, of env_ok]
    by (simp add: env_ok_def known_tags_def descriptor_def)
qed

text \<open>
  C4. Whatever branch resolves, the resolved layer's \<^verbatim>\<open>id\<close> is the descriptor's
  \<^verbatim>\<open>_hashFromPython\<close>. In particular, once the modules have loaded, a descriptor of type
  "TileLayer" resolves to a TileLayer on the descriptor's url with that id, and the outcome
  does not depend on the \<^verbatim>\<open>renderer\<close> field, so it is never rejected for lacking one.
\<close>

theorem inferNoTypeLayer_resolved_id:
  "(inferNoTypeLayer e d = Resolved l \<longrightarrow> layer_id l = hashFromPython d)
   \<and> (loadModules e = None \<longrightarrow> layer_type d = Some ''TileLayer'' \<longrightarrow>
        (\<forall>r. inferNoTypeLayer e (d\<lparr>renderer := r\<rparr>) =
              Resolved \<lparr>ctor = TileLayer, layer_url = url d,
                        layer_id = hashFromPython d, props = []\<rparr>))"
proof (intro conjI impI allI)
  assume "inferNoTypeLayer e d = Resolved l"
  then have "dispatch e d = Resolved l"
    by (simp add: inferNoTypeLayer_def split: option.splits)
  then show "layer_id l = hashFromPython d"
    by (rule dispatch_id)
next
  fix r
  assume "loadModules e = None" and "layer_type d = Some ''TileLayer''"
  then show "inferNoTypeLayer e (d\<lparr>renderer := r\<rparr>) =
      Resolved \<lparr>ctor = TileLayer, layer_url = url d, layer_id = hashFromPython d, props = []\<rparr>"
    by (simp add: inferNoTypeLayer_def dispatch_def with_id_def new_layer_def)
qed

theorem inferNoTypeLayer_resolved_id_witness:
  "inferNoTypeLayer env_ok (descriptor ''TileLayer'' ''https://x'' ''h1'') =
     Resolved \<lparr>ctor = TileLayer, layer_url = Some (JStr ''https://x''),
               layer_id = Some ''h1'', props = []\<rparr>
   \<and> renderer (descriptor ''TileLayer'' ''https://x'' ''h1'') = None
   \<and> layer_id \<lparr>ctor = TileLayer, layer_url = Some (JStr ''https://x''),
                layer_id = Some ''h1'', props = []\<rparr> =
       hashFromPython (descriptor ''TileLayer'' ''https://x'' ''h1'')
   \<and> loadModules env_ok = None
   \<and> layer_type (descriptor ''TileLayer'' ''https://x'' ''h1'') = Some ''TileLayer''"
proof -
  let ?d = "descriptor ''TileLayer'' ''https://x'' ''h1''"
  let ?l = "\<lparr>ctor = TileLayer, layer_url = Some (JStr ''https://x''),
             layer_id = Some ''h1'', props = []\<rparr>"
  have loaded: "loadModules env_ok = None"
    by (simp add: env_ok_def)
  have tag: "layer_type ?d = Some ''TileLayer''"
    by (simp add: descriptor_def)
  have same: "?d\<lparr>renderer := None\<rparr> = ?d"
    by (simp add: descriptor_def)
  from inferNoTypeLayer_resolved_id [of env_ok ?d ?l] loaded tag
  have run: "inferNoTypeLayer env_ok (?d\<lparr>renderer := None\<rparr>) =
      Resolved \<lparr>ctor = TileLayer, layer_url = url ?d, layer_id = hashFromPython ?d, props = []\<rparr>"
    by blast
  then have res: "inferNoTypeLayer env_ok ?d = Resolved ?l"
    unfolding same by (simp add: descriptor_def)
  from inferNoTypeLayer_resolved_id [of env_ok ?d ?l] res
  have "layer_id ?l = hashFromPython ?d"
    by blast
  with res loaded tag show ?thesis
    by (simp add: descriptor_def)
qed

text \<open>
  C6. Claimed: type-tag matching is tolerant of case as well as of legacy names. The chain
  compares strings for equality, so a case variant of a known tag matches nothing:
  "TileLayer" resolves to a TileLayer while "tilelayer" is rejected as unsupported.
\<close>

theorem type_matching_case_sensitive_counterexample:
  "inferNoTypeLayer env_ok (descriptor ''TileLayer'' ''https://x'' ''h1'') =
     Resolved \<lparr>ctor = TileLayer, layer_url = Some (JStr ''https://x''),
               layer_id = Some ''h1'', props = []\<rparr>
   \<and> inferNoTypeLayer env_ok (descriptor ''tilelayer'' ''https://x'' ''h1'') =
       Rejected (ErrString ''This layer type is not supported.'')"
  by (simp add: inferNoTypeLayer_def dispatch_def env_ok_def descriptor_def with_id_def
      new_layer_def unsupported_msg_def)

text \<open>
  C6, as the code has it. Matching is exact string equality against a fixed, ordered set of
  tags that contains the legacy names beside the current ones: once the modules have
  loaded, "KML" is dispatched as "KMLLayer", "ArcGISTiledMapServiceLayer" as "TileLayer",
  "ArcGISDynamicMapServiceLayer" as "MapImageLayer" and "Feature Layer" as "FeatureLayer"
  (to the same constructor, on the same url, with the same id), and a type that equals
  none of the tags on a descriptor without \<^verbatim>\<open>featureSet\<close> is rejected as unsupported.
\<close>

theorem inferNoTypeLayer_legacy_names:
  assumes "loadModules e = None"
  shows
    "(layer_type d = Some ''KML'' \<or> layer_type d = Some ''KMLLayer'' \<longrightarrow>
        inferNoTypeLayer e d =
          Resolved \<lparr>ctor = KMLLayer, layer_url = url d,
                    layer_id = hashFromPython d, props = []\<rparr>)
     \<and> (layer_type d = Some ''ArcGISTiledMapServiceLayer'' \<or> layer_type d = Some ''TileLayer'' \<longrightarrow>
        inferNoTypeLayer e d =
          Resolved \<lparr>ctor = TileLayer, layer_url = url d,
                    layer_id = hashFromPython d, props = []\<rparr>)
     \<and> (layer_type d = Some ''ArcGISDynamicMapServiceLayer'' \<or> layer_type d = Some ''MapImageLayer'' \<longrightarrow>
        inferNoTypeLayer e d =
          Resolved \<lparr>ctor = MapImageLayer, layer_url = url d,
                    layer_id = hashFromPython d, props = []\<rparr>)
     \<and> (layer_type d = Some ''Feature Layer'' \<or> layer_type d = Some ''FeatureLayer'' \<longrightarrow>
        inferNoTypeLayer e d = featureLayer_branch e d)
     \<and> ((\<forall>t \<in> set known_tags. layer_type d \<noteq> Some t) \<longrightarrow> featureSet d = None \<longrightarrow>
        inferNoTypeLayer e d = Rejected (ErrString ''This layer type is not supported.''))"
proof -
  have run: "inferNoTypeLayer e d = dispatch e d"
    using assms by (simp add: inferNoTypeLayer_def)
  have kml: "layer_type d = Some ''KML'' \<or> layer_type d = Some ''KMLLayer'' \<Longrightarrow>
      dispatch e d = Resolved \<lparr>ctor = KMLLayer, layer_url = url d,
                               layer_id = hashFromPython d, props = []\<rparr>"
    by (auto simp: dispatch_def with_id_def new_layer_def)
  have tile: "layer_type d = Some ''ArcGISTiledMapServiceLayer'' \<or> layer_type d = Some ''TileLayer''
      \<Longrightarrow> dispatch e d = Resolved \<lparr>ctor = TileLayer, layer_url = url d,
                                   layer_id = hashFromPython d, props = []\<rparr>"
    by (auto simp: dispatch_def with_id_def new_layer_def)
  have mapimage: "layer_type d = Some ''ArcGISDynamicMapServiceLayer''
        \<or> layer_type d = Some ''MapImageLayer''
      \<Longrightarrow> dispatch e d = Resolved \<lparr>ctor = MapImageLayer, layer_url = url d,
                                   layer_id = hashFromPython d, props = []\<rparr>"
    by (auto simp: dispatch_def with_id_def new_layer_def)
  have feature: "layer_type d = Some ''Feature Layer'' \<or> layer_type d = Some ''FeatureLayer''
      \<Longrightarrow> dispatch e d = featureLayer_branch e d"
    by (auto simp: dispatch_def)
  have unknown: "(\<forall>t \<in> set known_tags. layer_type d \<noteq> Some t) \<Longrightarrow> featureSet d = None
      \<Longrightarrow> dispatch e d = Rejected (ErrString ''This layer type is not supported.'')"
    using dispatch_unknown [of d e] by (simp add: unsupported_msg_def)
  show ?thesis
    unfolding run using kml tile mapimage feature unknown by blast
qed

theorem inferNoTypeLayer_legacy_names_witness:
  "loadModules env_ok = None
   \<and> inferNoTypeLayer env_ok (descriptor ''KML'' ''https://x'' ''h1'') =
       Resolved \<lparr>ctor = KMLLayer, layer_url = Some (JStr ''https://x''),
                 layer_id = Some ''h1'', props = []\<rparr>
   \<and> inferNoTypeLayer env_ok (descriptor ''ArcGISTiledMapServiceLayer'' ''https://x'' ''h1'') =
       Resolved \<lparr>ctor = TileLayer, layer_url = Some (JStr ''https://x''),
                 layer_id = Some ''h1'', props = []\<rparr>
   \<and> inferNoTypeLayer env_ok (descriptor ''ArcGISDynamicMapServiceLayer'' ''https://x'' ''h1'') =
       Resolved \<lparr>ctor = MapImageLayer, layer_url = Some (JStr ''https://x''),
                 layer_id = Some ''h1'', props = []\<rparr>
   \<and> inferNoTypeLayer env_ok (descriptor ''Feature Layer'' ''https://x'' ''h1'') =
       Resolved \<lparr>ctor = FeatureLayer, layer_url = Some (JStr ''https://x''),
                 layer_id = Some ''h1'',
                 props = [(''outFields'', Some (JArr [JStr ''*''])),
                          (''popupTemplate'', Some (JStr ''popup''))]\<rparr>
   \<and> inferNoTypeLayer env_ok (descriptor ''mapimagelayer'' ''https://x'' ''h1'') =
       Rejected (ErrString ''This layer type is not supported.'')"
proof -
  have loaded: "loadModules env_ok = None"
    by (simp add: env_ok_def)
  have fl: "featureLayer_branch env_ok (descriptor ''Feature Layer'' ''https://x'' ''h1'') =
      Resolved \<lparr>ctor = FeatureLayer, layer_url = Some (JStr ''https://x''),
                layer_id = Some ''h1'',
                props = [(''outFields'', Some (JArr [JStr ''*''])),
                         (''popupTemplate'', Some (JStr ''popup''))]\<rparr>"
    by (simp add: featureLayer_branch_def featureLayer_loaded_def lyr_options_of_def
        set_unless_null_def nullish_def falsy_def set_prop_def with_id_def new_layer_def
        env_ok_def descriptor_def)
  show ?thesis
    using loaded fl
      inferNoTypeLayer_legacy_names [OF loaded, of "descriptor ''KML'' ''https://x'' ''h1''"]
      inferNoTypeLayer_legacy_names
        [OF loaded, of "descriptor ''ArcGISTiledMapServiceLayer'' ''https://x'' ''h1''"]
      inferNoTypeLayer_legacy_names
        [OF loaded, of "descriptor ''ArcGISDynamicMapServiceLayer'' ''https://x'' ''h1''"]
      inferNoTypeLayer_legacy_names
        [OF loaded, of "descriptor ''Feature Layer'' ''https://x'' ''h1''"]
      inferNoTypeLayer_legacy_names
        [OF loaded, of "descriptor ''mapimagelayer'' ''https://x'' ''h1''"]
    by (simp add: descriptor_def known_tags_def)
qed

subsection \<open>Theorems: zoom and scale\<close>

lemma zoom_changed_forwards:
  "0 \<le> m_zoom (model w) \<Longrightarrow> view_zoom (active (zoom_changed w)) = m_zoom (model w)"
  by (simp add: zoom_changed_def model_set_def save_changes_def active_def active_update_def
      Let_def split: viewKind.splits)

lemma scale_changed_forwards:
  "1 \<le> m_scale (model w) \<Longrightarrow> view_scale (active (scale_changed w)) = m_scale (model w)"
  by (simp add: scale_changed_def model_set_def save_changes_def active_def active_update_def
      Let_def split: viewKind.splits)

text \<open>
  C7. The sentinel values are not forwarded to the surface. When \<^verbatim>\<open>_zoom\<close> is negative,
  \<^verbatim>\<open>zoom_changed\<close> leaves both views as they were (so the zoom of the active view is
  unchanged), queues no call on them, and reports no error: the error box and the console
  are untouched. The same holds for \<^verbatim>\<open>scale_changed\<close> when \<^verbatim>\<open>_scale\<close> is below 1.
\<close>

theorem sentinel_not_forwarded:
  "(m_zoom (model w) < 0 \<longrightarrow>
      mapView (zoom_changed w) = mapView w \<and> sceneView (zoom_changed w) = sceneView w
      \<and> deferred (zoom_changed w) = deferred w
      \<and> errorTextBox (zoom_changed w) = errorTextBox w
      \<and> console (zoom_changed w) = console w)
   \<and> (m_scale (model w) < 1 \<longrightarrow>
      mapView (scale_changed w) = mapView w \<and> sceneView (scale_changed w) = sceneView w
      \<and> deferred (scale_changed w) = deferred w
      \<and> errorTextBox (scale_changed w) = errorTextBox w
      \<and> console (scale_changed w) = console w)"
  by (simp add: zoom_changed_def scale_changed_def model_set_def save_changes_def Let_def)

theorem sentinel_not_forwarded_witness:
  "m_zoom (model widget0) < 0 \<and> m_scale (model widget0) < 1
   \<and> view_zoom (mapView (zoom_changed widget0)) = 2
   \<and> view_scale (mapView (scale_changed widget0)) = 147914382
   \<and> errorTextBox (zoom_changed widget0) = []
   \<and> errorTextBox (scale_changed widget0) = []"
proof -
  have zoom: "m_zoom (model widget0) < 0" and scale: "m_scale (model widget0) < 1"
    by (simp_all add: widget0_def model0_def)
  from sentinel_not_forwarded [of widget0] zoom scale
  have "mapView (zoom_changed widget0) = mapView widget0"
    and "mapView (scale_changed widget0) = mapView widget0"
    and "errorTextBox (zoom_changed widget0) = errorTextBox widget0"
    and "errorTextBox (scale_changed widget0) = errorTextBox widget0"
    by simp_all
  with zoom scale show ?thesis
    by (simp add: widget0_def view0_def)
qed

subsection \<open>Theorems: the error box\<close>

lemma display_text_nonempty: "display_text msg b \<noteq> []"
  by (simp add: display_text_def split: option.splits)

text \<open>
  C2. Claimed: of two reports in succession on an empty box, the first message is shown
  verbatim. With the default \<^verbatim>\<open>browser_console_message = true\<close>, which nearly every call
  site uses, the text shown is the message with " See the browser console for more info."
  appended.
\<close>

theorem displayErrorBox_not_verbatim_counterexample:
  "errorTextBox widget0 = []
   \<and> errorTextBox (displayErrorBox (Some ''Error while modifying zoom.'') True widget0) =
       ''Error while modifying zoom. See the browser console for more info.''
   \<and> errorTextBox (displayErrorBox (Some ''Error while modifying zoom.'') True widget0) \<noteq>
       ''Error while modifying zoom.''"
  by (simp add: displayErrorBox_def display_text_def displayPureJSErrorBox_def widget0_def)

text \<open>
  C2, as the code has it. On an empty box the first report shows its display text: the
  message itself when \<^verbatim>\<open>browser_console_message\<close> is false, the message followed by the
  pointer to the browser console when it is true, and the default text when the message is
  missing or empty; nothing is logged. The second report replaces the content by the
  multiple-messages notice and writes both display texts to the console, each prefixed
  \<^verbatim>\<open>*****MESSAGE_BOX: \<close> (the first one unless it is the notice itself).
\<close>

theorem displayErrorBox_twice:
  assumes "errorTextBox w = []"
  shows
    "errorTextBox (displayErrorBox m1 b1 w) = display_text m1 b1
     \<and> console (displayErrorBox m1 b1 w) = console w
     \<and> (m \<noteq> [] \<longrightarrow> display_text (Some m) False = m
          \<and> display_text (Some m) True = m @ '' See the browser console for more info.'')
     \<and> errorTextBox (displayErrorBox m2 b2 (displayErrorBox m1 b1 w)) =
         ''Multiple messages attempted to display. See browser console to view all messages''
     \<and> console (displayErrorBox m2 b2 (displayErrorBox m1 b1 w)) =
         console w
         @ (if display_text m1 b1 = multiple_messages_info then []
            else [''*****MESSAGE_BOX: '' @ display_text m1 b1])
         @ [''*****MESSAGE_BOX: '' @ display_text m2 b2]"
proof -
  let ?w1 = "displayErrorBox m1 b1 w"
  have first: "?w1 = w\<lparr>loading := False, errorBox_in_document := True,
      errorTextBox := display_text m1 b1\<rparr>"
    using assms by (simp add: displayErrorBox_def displayPureJSErrorBox_def)
  have shown: "errorTextBox ?w1 = display_text m1 b1" and quiet: "console ?w1 = console w"
    unfolding first by simp_all
  have busy: "errorTextBox ?w1 \<noteq> []"
    unfolding shown by (rule display_text_nonempty)
  have texts: "m \<noteq> [] \<longrightarrow> display_text (Some m) False = m
      \<and> display_text (Some m) True = m @ '' See the browser console for more info.''"
    by (simp add: display_text_def)
  have second_box: "errorTextBox (displayErrorBox m2 b2 ?w1) =
      ''Multiple messages attempted to display. See browser console to view all messages''"
    using busy
    by (simp add: displayErrorBox_def [of m2 b2] displayPureJSErrorBox_def console_warn_def
        multiple_messages_info_def Let_def)
  have second_log: "console (displayErrorBox m2 b2 ?w1) =
      console ?w1
      @ (if errorTextBox ?w1 = multiple_messages_info then []
         else [''*****MESSAGE_BOX: '' @ errorTextBox ?w1])
      @ [''*****MESSAGE_BOX: '' @ display_text m2 b2]"
    using busy
    by (simp add: displayErrorBox_def [of m2 b2] displayPureJSErrorBox_def console_warn_def
        Let_def)
  show ?thesis
    using shown quiet texts second_box second_log by simp
qed

theorem displayErrorBox_twice_witness:
  "errorTextBox widget0 = []
   \<and> errorTextBox (displayErrorBox (Some ''Error removing layer'') True widget0) =
       ''Error removing layer See the browser console for more info.''
   \<and> errorTextBox (displayErrorBox (Some ''custom'') False
        (displayErrorBox (Some ''Error removing layer'') True widget0)) =
       ''Multiple messages attempted to display. See browser console to view all messages''
   \<and> console (displayErrorBox (Some ''custom'') False
        (displayErrorBox (Some ''Error removing layer'') True widget0)) =
       [''*****MESSAGE_BOX: Error removing layer See the browser console for more info.'',
        ''*****MESSAGE_BOX: custom'']"
proof -
  have empty: "errorTextBox widget0 = []"
    by (simp add: widget0_def)
  have quiet: "console widget0 = []"
    by (simp add: widget0_def)
  show ?thesis
    using empty
      displayErrorBox_twice [OF empty, of "Some ''Error removing layer''" True
        "''Error removing layer''" "Some ''custom''" False]
    by (simp add: quiet display_text_def multiple_messages_info_def)
qed


subsection \<open>Theorems: the read-only attributes\<close>






















subsection \<open>Theorems: removing layers\<close>

lemma remove_while_exists_stuck:
  assumes "findLayerById ls layerId = Some layer" and "map_remove layer ls = ls"
  shows "remove_while_exists layerId ls = None"
proof (rule ccontr)
  assume "remove_while_exists layerId ls \<noteq> None"
  then obtain out where returns: "remove_while_exists layerId ls = Some out"
    by blast
  have "\<not> (\<exists>layer. findLayerById ls layerId = Some layer \<and> map_remove layer ls = ls)"
  proof (rule remove_while_exists.raw_induct
      [where P = "\<lambda>layerId ls out.
        \<not> (\<exists>layer. findLayerById ls layerId = Some layer \<and> map_remove layer ls = ls)"])
    show "remove_while_exists layerId ls = Some out"
      by (rule returns)
  next
    fix rec :: "string \<Rightarrow> mapLayer list \<Rightarrow> mapLayer list option"
      and layerId :: string and ls out :: "mapLayer list"
    assume IH: "\<And>layerId ls out. rec layerId ls = Some out \<Longrightarrow>
        \<not> (\<exists>layer. findLayerById ls layerId = Some layer \<and> map_remove layer ls = ls)"
      and body: "(case findLayerById ls layerId of
          None \<Rightarrow> Some ls
        | Some layer \<Rightarrow> rec layerId (map_remove layer ls)) = Some out"
    show "\<not> (\<exists>layer. findLayerById ls layerId = Some layer \<and> map_remove layer ls = ls)"
    proof
      assume "\<exists>layer. findLayerById ls layerId = Some layer \<and> map_remove layer ls = ls"
      then obtain layer where found: "findLayerById ls layerId = Some layer"
        and same: "map_remove layer ls = ls"
        by blast
      from body found same have "rec layerId ls = Some out"
        by simp
      from IH [OF this] found same show False
        by blast
    qed
  qed
  with assms show False
    by blast
qed

lemma findLayers_leaves_None:
  "\<forall>l \<in> set ls. layer_id l \<noteq> Some layerId \<Longrightarrow>
     findLayers layerId i (map (\<lambda>l. MapLayer l []) ls) = None"
  by (induction ls arbitrary: i) simp_all

lemma findLayers_leaves_Some:
  "layer_id l = Some layerId \<Longrightarrow> \<forall>x \<in> set pre. layer_id x \<noteq> Some layerId \<Longrightarrow>
     findLayers layerId i (map (\<lambda>l. MapLayer l []) (pre @ l # post)) = Some [i + length pre]"
  by (induction pre arbitrary: i) simp_all

lemma removeAt_middle: "removeAt (length pre) (pre @ x # post) = pre @ post"
  by (simp add: removeAt_def)

lemma remove_while_exists_leaves:
  "remove_while_exists layerId (map (\<lambda>l. MapLayer l []) ls) =
     Some (map (\<lambda>l. MapLayer l []) (filter (\<lambda>l. layer_id l \<noteq> Some layerId) ls))"
proof (induction "length ls" arbitrary: ls rule: less_induct)
  case less
  show ?case
  proof (cases "\<exists>l \<in> set ls. layer_id l = Some layerId")
    case False
    then have none: "\<forall>l \<in> set ls. layer_id l \<noteq> Some layerId"
      by blast
    then have "filter (\<lambda>l. layer_id l \<noteq> Some layerId) ls = ls"
      by (simp add: filter_id_conv)
    moreover have "findLayerById (map (\<lambda>l. MapLayer l []) ls) layerId = None"
      using none by (simp add: findLayerById_def findLayers_leaves_None)
    ultimately show ?thesis
      by (subst remove_while_exists.simps) simp
  next
    case True
    from split_list_first_prop [OF True]
    obtain pre l post where parts: "ls = pre @ l # post"
      and hit: "layer_id l = Some layerId"
      and first: "\<forall>x \<in> set pre. layer_id x \<noteq> Some layerId"
      by blast
    have found: "findLayerById (map (\<lambda>l. MapLayer l []) ls) layerId = Some [length pre]"
      unfolding parts findLayerById_def using findLayers_leaves_Some [OF hit first, of 0 post]
      by simp
    have "map_remove [length pre] (map (\<lambda>l. MapLayer l []) ls) =
        removeAt (length (map (\<lambda>l. MapLayer l []) pre))
          (map (\<lambda>l. MapLayer l []) pre @ MapLayer l [] # map (\<lambda>l. MapLayer l []) post)"
      by (simp add: map_remove_def parts)
    also have "\<dots> = map (\<lambda>l. MapLayer l []) pre @ map (\<lambda>l. MapLayer l []) post"
      by (rule removeAt_middle)
    finally have removed: "map_remove [length pre] (map (\<lambda>l. MapLayer l []) ls) =
        map (\<lambda>l. MapLayer l []) (pre @ post)"
      by simp
    have shorter: "length (pre @ post) < length ls"
      by (simp add: parts)
    have same: "filter (\<lambda>l. layer_id l \<noteq> Some layerId) (pre @ post) =
        filter (\<lambda>l. layer_id l \<noteq> Some layerId) ls"
      using hit by (simp add: parts)
    have "remove_while_exists layerId (map (\<lambda>l. MapLayer l []) ls) =
        remove_while_exists layerId (map (\<lambda>l. MapLayer l []) (pre @ post))"
      by (subst remove_while_exists.simps) (simp only: found removed option.case)
    also have "\<dots> = Some (map (\<lambda>l. MapLayer l [])
        (filter (\<lambda>l. layer_id l \<noteq> Some layerId) (pre @ post)))"
      by (rule less [OF shorter])
    finally show ?thesis
      by (simp only: same)
  qed
qed

lemma remove_each_leaves:
  "remove_each ids (map (\<lambda>l. MapLayer l []) ls) =
     Some (map (\<lambda>l. MapLayer l [])
             (filter (\<lambda>l. \<forall>layerId \<in> set ids. layer_id l \<noteq> Some layerId) ls))"
proof (induction ids arbitrary: ls)
  case Nil
  then show ?case by simp
next
  case (Cons i ids)
  have "filter (\<lambda>l. \<forall>layerId \<in> set ids. layer_id l \<noteq> Some layerId)
          (filter (\<lambda>l. layer_id l \<noteq> Some i) ls) =
        filter (\<lambda>l. \<forall>layerId \<in> set (i # ids). layer_id l \<noteq> Some layerId) ls"
    by (induction ls) auto
  with Cons.IH show ?case
    by (simp add: remove_while_exists_leaves)
qed

text \<open>
  When every layer of the map is a layer of the map's own collection with nothing nested in
  it, as the layers that \<^verbatim>\<open>add_notype_layer\<close> adds are, the handler returns and leaves
  exactly the layers whose ids are not listed.
\<close>

lemma layers_to_remove_changed_leaves:
  assumes "map_layers w = map (\<lambda>l. MapLayer l []) ls"
  shows "layers_to_remove_changed w =
    Some (w\<lparr>map_layers := map (\<lambda>l. MapLayer l [])
              (filter (\<lambda>l. \<forall>layerId \<in> set (m_layers_to_remove (model w)).
                          layer_id l \<noteq> Some layerId) ls)\<rparr>)"
  by (simp add: layers_to_remove_changed_def assms remove_each_leaves)

text \<open>
  C10. Claimed: for every id listed, the inner loop removes every layer bearing the id and
  ends, so that afterwards the map holds no layer with that id. The loop ends only when
  \<^verbatim>\<open>findLayerById\<close> finds nothing, and \<^verbatim>\<open>findLayerById\<close> also finds a layer nested in
  a group layer, which \<^verbatim>\<open>map.remove\<close> does not take out. On the map of
  \<open>widget_nested\<close> the layer "x" is found at position 0 of the group at position 0,
  removing it changes nothing, and the handler never returns.
\<close>

theorem layers_to_remove_changed_nested_never_returns:
  "findLayerById (map_layers widget_nested) ''x'' = Some [0, 0]
   \<and> map_remove [0, 0] (map_layers widget_nested) = map_layers widget_nested
   \<and> layers_to_remove_changed widget_nested = None"
proof -
  have found: "findLayerById (map_layers widget_nested) ''x'' = Some [0, 0]"
    by (simp add: widget_nested_def findLayerById_def leaf_def)
  have same: "map_remove [0, 0] (map_layers widget_nested) = map_layers widget_nested"
    by (simp add: map_remove_def)
  have "remove_while_exists ''x'' (map_layers widget_nested) = None"
    using found same by (rule remove_while_exists_stuck)
  then have "layers_to_remove_changed widget_nested = None"
    by (simp add: layers_to_remove_changed_def widget_nested_def)
  with found same show ?thesis
    by simp
qed

lemma layers_to_remove_changed_flat_run:
  "layers_to_remove_changed widget_with_layers =
     Some (widget_with_layers\<lparr>map_layers := [leaf KMLLayer ''keep'']\<rparr>)"
proof -
  have "map_layers widget_with_layers =
      map (\<lambda>l. MapLayer l [])
        [\<lparr>ctor = TileLayer, layer_url = None, layer_id = Some ''dup'', props = []\<rparr>,
         \<lparr>ctor = KMLLayer, layer_url = None, layer_id = Some ''keep'', props = []\<rparr>,
         \<lparr>ctor = FeatureLayer, layer_url = None, layer_id = Some ''dup'', props = []\<rparr>]"
    by (simp add: widget_with_layers_def leaf_def)
  from layers_to_remove_changed_leaves [OF this] show ?thesis
    by (simp add: widget_with_layers_def leaf_def)
qed


subsection \<open>Theorems: authenticating to the portal\<close>

lemma authenticate_to_portal_cached:
  "loaded_portal w = Some p \<Longrightarrow>
     authenticate_to_portal None w = (w, Settled (Resolved (Some p)))"
  by (auto simp: authenticate_to_portal_def authenticate_callback_def loaded_portal_def
      Let_def split: option.splits if_splits)

lemma loaded_portal_new_Portal: "loaded_portal (new_Portal opts w) = None"
  by (simp add: loaded_portal_def new_Portal_def)

lemma new_Portal_count:
  "length (portals (new_Portal opts w)) = Suc (length (portals w))"
  "w_portal (new_Portal opts w) = Some (length (portals w))"
  by (simp_all add: new_Portal_def)

lemma portals_set_portalUrl: "portals (set_portalUrl w) = portals w"
  by (simp add: set_portalUrl_def)

lemma loaded_portal_model_update: "loaded_portal (w\<lparr>model := m\<rparr>) = loaded_portal w"
  by (simp add: loaded_portal_def cong: option.case_cong)

lemma widget_anonymous_first_call:
  "authenticate_to_portal None widget_anonymous =
     (widget_anonymous\<lparr>portals := [\<lparr>portal_options = AnonymousPortal, loaded = False\<rparr>],
                        w_portal := Some 0\<rparr>, Loading 0)"
  by (simp add: widget_anonymous_def authenticate_to_portal_def authenticate_callback_def
      loaded_portal_def new_Portal_def set_portalUrl_def toLowerCase_def lower_char_def
      widget0_def model0_def)

lemma anonymous_call:
  assumes "loaded_portal w = None" and "toLowerCase (m_auth_mode (model w)) = ''anonymous''"
    and "m_portal_url (model w) = []"
  shows "authenticate_to_portal None w =
     (w\<lparr>portals := portals w @ [\<lparr>portal_options = AnonymousPortal, loaded = False\<rparr>],
        w_portal := Some (length (portals w))\<rparr>, Loading (length (portals w)))"
  using assms
  by (simp add: authenticate_to_portal_def authenticate_callback_def new_Portal_def
      set_portalUrl_def)

lemma widget_anonymous_mode:
  "toLowerCase (m_auth_mode (model widget_anonymous)) = ''anonymous''"
  "m_portal_url (model widget_anonymous) = []"
  "portals widget_anonymous = []"
  by (simp_all add: widget_anonymous_def toLowerCase_def lower_char_def widget0_def model0_def)

lemma widget_called_once_eq:
  "widget_called_once =
     widget_anonymous\<lparr>portals := [\<lparr>portal_options = AnonymousPortal, loaded = False\<rparr>],
                        w_portal := Some 0\<rparr>"
  unfolding widget_called_once_def widget_anonymous_first_call by simp

lemma widget_called_twice_eq:
  "widget_called_twice =
     widget_anonymous\<lparr>portals := [\<lparr>portal_options = AnonymousPortal, loaded = False\<rparr>,
                                    \<lparr>portal_options = AnonymousPortal, loaded = False\<rparr>],
                        w_portal := Some 1\<rparr>"
  unfolding widget_called_twice_def widget_called_once_eq
  by (subst anonymous_call) (simp_all add: widget_anonymous_mode loaded_portal_def)

lemma widget_called_thrice_eq:
  "widget_called_thrice =
     widget_anonymous\<lparr>portals := [\<lparr>portal_options = AnonymousPortal, loaded = False\<rparr>,
                                    \<lparr>portal_options = AnonymousPortal, loaded = False\<rparr>,
                                    \<lparr>portal_options = AnonymousPortal, loaded = False\<rparr>],
                        w_portal := Some 2\<rparr>"
  unfolding widget_called_thrice_def widget_called_twice_eq
  by (subst anonymous_call) (simp_all add: widget_anonymous_mode loaded_portal_def)

lemma widget_second_settled_eq:
  "widget_second_settled =
     widget_anonymous\<lparr>portals := [\<lparr>portal_options = AnonymousPortal, loaded = False\<rparr>,
                                    \<lparr>portal_options = AnonymousPortal, loaded = True\<rparr>,
                                    \<lparr>portal_options = AnonymousPortal, loaded = False\<rparr>],
                        w_portal := Some 2\<rparr>"
  unfolding widget_second_settled_def widget_called_thrice_eq
  by (simp add: portal_load_settles_def)

lemma widget_called_again_eq:
  "widget_called_again =
     widget_anonymous\<lparr>portals := [\<lparr>portal_options = AnonymousPortal, loaded = False\<rparr>,
                                    \<lparr>portal_options = AnonymousPortal, loaded = True\<rparr>,
                                    \<lparr>portal_options = AnonymousPortal, loaded = False\<rparr>,
                                    \<lparr>portal_options = AnonymousPortal, loaded = False\<rparr>],
                        w_portal := Some 3\<rparr>"
  unfolding widget_called_again_def widget_second_settled_eq
  by (subst anonymous_call) (simp_all add: widget_anonymous_mode loaded_portal_def)

text \<open>
  C1. Claimed: calls made while an attempt is pending share one underlying request, and
  all of them resolve with the same portal object. The callback reuses \<^verbatim>\<open>this._portal\<close>
  only when it is loaded, and a caller that waits for a load resolves with whatever
  \<^verbatim>\<open>this._portal\<close> is when that load settles. In the run below four calls are made
  while the load of the first call's portal is pending (portal 0 is never loaded): each
  constructs and loads a Portal of its own, four requests in all; the second caller
  resolves with portal 2 and the third caller with portal 3.
\<close>

theorem authenticate_while_pending_counterexample:
  "snd (authenticate_to_portal None widget_anonymous) = Loading 0
   \<and> snd (authenticate_to_portal None widget_called_once) = Loading 1
   \<and> snd (authenticate_to_portal None widget_called_twice) = Loading 2
   \<and> snd (portal_load_settles 1 None widget_called_thrice) = Resolved (Some 2)
   \<and> snd (authenticate_to_portal None widget_second_settled) = Loading 3
   \<and> snd (portal_load_settles 2 None widget_called_again) = Resolved (Some 3)
   \<and> map loaded (portals (fst (portal_load_settles 2 None widget_called_again))) =
       [False, True, True, False]"
proof -
  have "snd (authenticate_to_portal None widget_anonymous) = Loading 0"
    unfolding widget_anonymous_first_call by simp
  moreover have "snd (authenticate_to_portal None widget_called_once) = Loading 1"
    unfolding widget_called_once_eq
    by (subst anonymous_call) (simp_all add: widget_anonymous_mode loaded_portal_def)
  moreover have "snd (authenticate_to_portal None widget_called_twice) = Loading 2"
    unfolding widget_called_twice_eq
    by (subst anonymous_call) (simp_all add: widget_anonymous_mode loaded_portal_def)
  moreover have "snd (portal_load_settles 1 None widget_called_thrice) = Resolved (Some 2)"
    unfolding widget_called_thrice_eq by (simp add: portal_load_settles_def)
  moreover have "snd (authenticate_to_portal None widget_second_settled) = Loading 3"
    unfolding widget_second_settled_eq
    by (subst anonymous_call) (simp_all add: widget_anonymous_mode loaded_portal_def)
  moreover have "snd (portal_load_settles 2 None widget_called_again) = Resolved (Some 3)"
    unfolding widget_called_again_eq by (simp add: portal_load_settles_def)
  moreover have "map loaded (portals (fst (portal_load_settles 2 None widget_called_again))) =
       [False, True, True, False]"
    unfolding widget_called_again_eq by (simp add: portal_load_settles_def)
  ultimately show ?thesis
    by simp
qed

text \<open>
  C1, as the code has it. A portal is reused only once it is loaded: a call made while
  the widget's portal is loaded constructs nothing and resolves with that cached portal,
  so all such callers get the same object. A call made while no loaded portal is cached
  (none yet, or one still loading), in anonymous mode, prompt mode or token-based mode with
  its three values present, constructs a Portal of its own, makes it the widget's portal
  and waits for its load; the widget still has no loaded portal, so the next call does the
  same. A caller that waits for the load of portal \<open>q\<close> resolves, when that load succeeds,
  with the widget's portal as it is at that moment, which is the portal of the latest
  constructing call and need be neither portal \<open>q\<close> nor loaded; when the load fails the
  caller rejects with the load's error and the widget is left as it was. A settling load
  does not change which portal is the widget's, so two callers whose loads settle with no
  constructing call in between resolve with the same object.
\<close>

theorem authenticate_to_portal_reuses_only_loaded:
  "(loaded_portal w = Some p \<longrightarrow>
      authenticate_to_portal None w = (w, Settled (Resolved (Some p))))
   \<and> (loaded_portal w = None \<longrightarrow>
       (toLowerCase (m_auth_mode (model w)) = ''anonymous''
        \<or> toLowerCase (m_auth_mode (model w)) = ''prompt''
        \<or> (toLowerCase (m_auth_mode (model w)) = ''tokenbased''
            \<and> m_portal_url (model w) \<noteq> [] \<and> m_portal_sharing_rest_url (model w) \<noteq> []
            \<and> get_portal_token w \<noteq> [])) \<longrightarrow>
       snd (authenticate_to_portal None w) = Loading (length (portals w))
       \<and> length (portals (fst (authenticate_to_portal None w))) = Suc (length (portals w))
       \<and> w_portal (fst (authenticate_to_portal None w)) = Some (length (portals w))
       \<and> loaded_portal (fst (authenticate_to_portal None w)) = None)
   \<and> portal_load_settles q None w =
       (w\<lparr>portals := (portals w)[q := (portals w ! q)\<lparr>loaded := True\<rparr>]\<rparr>,
        Resolved (w_portal w))
   \<and> portal_load_settles q (Some err) w = (w, Rejected err)
   \<and> snd (portal_load_settles q' None (fst (portal_load_settles q failure w))) =
       Resolved (w_portal w)"
proof (intro conjI impI)
  assume "loaded_portal w = Some p"
  then show "authenticate_to_portal None w = (w, Settled (Resolved (Some p)))"
    by (rule authenticate_to_portal_cached)
next
  show "portal_load_settles q None w =
       (w\<lparr>portals := (portals w)[q := (portals w ! q)\<lparr>loaded := True\<rparr>]\<rparr>,
        Resolved (w_portal w))"
    by (simp add: portal_load_settles_def)
next
  show "portal_load_settles q (Some err) w = (w, Rejected err)"
    by (simp add: portal_load_settles_def)
next
  show "snd (portal_load_settles q' None (fst (portal_load_settles q failure w))) =
       Resolved (w_portal w)"
    by (cases failure) (simp_all add: portal_load_settles_def)
next
  assume none: "loaded_portal w = None"
    and mode: "toLowerCase (m_auth_mode (model w)) = ''anonymous''
        \<or> toLowerCase (m_auth_mode (model w)) = ''prompt''
        \<or> (toLowerCase (m_auth_mode (model w)) = ''tokenbased''
            \<and> m_portal_url (model w) \<noteq> [] \<and> m_portal_sharing_rest_url (model w) \<noteq> []
            \<and> get_portal_token w \<noteq> [])"
  from mode have "\<exists>opts w'. portals w' = portals w
      \<and> authenticate_to_portal None w = (new_Portal opts w', Loading (length (portals w)))"
  proof (elim disjE conjE)
    assume "toLowerCase (m_auth_mode (model w)) = ''anonymous''"
    with none have "authenticate_to_portal None w =
        (new_Portal AnonymousPortal (set_portalUrl w), Loading (length (portals w)))"
      by (simp add: authenticate_to_portal_def authenticate_callback_def)
    then show ?thesis
      using portals_set_portalUrl by blast
  next
    assume "toLowerCase (m_auth_mode (model w)) = ''prompt''"
    with none have "authenticate_to_portal None w =
        (new_Portal (ImmediatePortal (esri_portalUrl (set_portalUrl w))) (set_portalUrl w),
         Loading (length (portals w)))"
      by (simp add: authenticate_to_portal_def authenticate_callback_def Let_def)
    then show ?thesis
      using portals_set_portalUrl by blast
  next
    let ?w' = "w\<lparr>registeredServers := registeredServers w @ [m_portal_sharing_rest_url (model w)],
                  registeredTokens := registeredTokens w @
                    [(m_portal_sharing_rest_url (model w), m_username (model w),
                      get_portal_token w)],
                  trustedServers := trustedServers w @ [m_portal_url (model w)]\<rparr>"
    assume "toLowerCase (m_auth_mode (model w)) = ''tokenbased''"
      and "m_portal_url (model w) \<noteq> []" and "m_portal_sharing_rest_url (model w) \<noteq> []"
      and "get_portal_token w \<noteq> []"
    with none have "authenticate_to_portal None w =
        (new_Portal (UrlPortal (m_portal_url (model w))) ?w', Loading (length (portals w)))"
      by (simp add: authenticate_to_portal_def authenticate_callback_def Let_def)
    moreover have "portals ?w' = portals w"
      by simp
    ultimately show ?thesis
      by blast
  qed
  then obtain opts w' where same: "portals w' = portals w"
    and run: "authenticate_to_portal None w = (new_Portal opts w', Loading (length (portals w)))"
    by blast
  show "snd (authenticate_to_portal None w) = Loading (length (portals w))"
    and "length (portals (fst (authenticate_to_portal None w))) = Suc (length (portals w))"
    and "w_portal (fst (authenticate_to_portal None w)) = Some (length (portals w))"
    and "loaded_portal (fst (authenticate_to_portal None w)) = None"
    unfolding run by (simp_all add: new_Portal_count loaded_portal_new_Portal same)
qed

theorem authenticate_to_portal_reuses_only_loaded_witness:
  "loaded_portal widget_anonymous = None
   \<and> toLowerCase (m_auth_mode (model widget_anonymous)) = ''anonymous''
   \<and> snd (authenticate_to_portal None widget_anonymous) = Loading 0
   \<and> length (portals (fst (authenticate_to_portal None widget_anonymous))) = 1
   \<and> w_portal (fst (authenticate_to_portal None widget_anonymous)) = Some 0
   \<and> loaded_portal widget_anonymous_loaded = Some 0
   \<and> authenticate_to_portal None widget_anonymous_loaded =
       (widget_anonymous_loaded, Settled (Resolved (Some 0)))
   \<and> w_portal widget_called_twice = Some 1
   \<and> snd (portal_load_settles 0 None widget_called_twice) = Resolved (Some 1)
   \<and> snd (portal_load_settles 1 None (fst (portal_load_settles 0 None widget_called_twice))) =
       Resolved (Some 1)
   \<and> portal_load_settles 0 (Some (ErrString ''timeout'')) widget_called_twice =
       (widget_called_twice, Rejected (ErrString ''timeout''))"
proof -
  have none: "loaded_portal widget_anonymous = None"
    and mode: "toLowerCase (m_auth_mode (model widget_anonymous)) = ''anonymous''"
    and fresh: "length (portals widget_anonymous) = 0"
    by (simp_all add: widget_anonymous_def widget0_def model0_def loaded_portal_def
        toLowerCase_def lower_char_def)
  have cached: "loaded_portal widget_anonymous_loaded = Some 0"
    unfolding widget_anonymous_loaded_def widget_anonymous_first_call
    by (simp add: portal_load_settles_def loaded_portal_def)
  have latest: "w_portal widget_called_twice = Some 1"
    unfolding widget_called_twice_eq by simp
  note first = authenticate_to_portal_reuses_only_loaded [of widget_anonymous 0 0 "ErrString []" 0 None]
  note again = authenticate_to_portal_reuses_only_loaded
    [of widget_anonymous_loaded 0 0 "ErrString []" 0 None]
  note waits = authenticate_to_portal_reuses_only_loaded
    [of widget_called_twice 0 0 "ErrString ''timeout''" 1 None]
  from first none mode fresh
  have call: "snd (authenticate_to_portal None widget_anonymous) = Loading 0"
    "length (portals (fst (authenticate_to_portal None widget_anonymous))) = 1"
    "w_portal (fst (authenticate_to_portal None widget_anonymous)) = Some 0"
    by simp_all
  from again cached
  have reuse: "authenticate_to_portal None widget_anonymous_loaded =
      (widget_anonymous_loaded, Settled (Resolved (Some 0)))"
    by simp
  from waits have settle:
    "portal_load_settles 0 None widget_called_twice =
       (widget_called_twice\<lparr>portals := (portals widget_called_twice)
          [0 := (portals widget_called_twice ! 0)\<lparr>loaded := True\<rparr>]\<rparr>,
        Resolved (w_portal widget_called_twice))"
    "portal_load_settles 0 (Some (ErrString ''timeout'')) widget_called_twice =
       (widget_called_twice, Rejected (ErrString ''timeout''))"
    "snd (portal_load_settles 1 None (fst (portal_load_settles 0 None widget_called_twice))) =
       Resolved (w_portal widget_called_twice)"
    by blast+
  from settle(1) latest
  have one: "snd (portal_load_settles 0 None widget_called_twice) = Resolved (Some 1)"
    by simp
  from settle(3) latest
  have two: "snd (portal_load_settles 1 None
      (fst (portal_load_settles 0 None widget_called_twice))) = Resolved (Some 1)"
    by simp
  from none mode call cached reuse latest one two settle(2) show ?thesis
    by (intro conjI)
qed

lemma widget_token_loaded_state:
  "loaded_portal widget_token_loaded = Some 0"
  "toLowerCase (m_auth_mode (model widget_token_loaded)) = ''tokenbased''"
  "m_portal_url (model widget_token_loaded) = ''https://portal''"
  "m_portal_token (model widget_token_loaded) = []"
  "get_portal_token widget_token_loaded = ''abc''"
  by (simp_all add: widget_token_loaded_def widget_token_def portal_token_changed_def
      model_set_def save_changes_def authenticate_to_portal_def authenticate_callback_def
      loaded_portal_def new_Portal_def get_portal_token_def portal_load_settles_def
      toLowerCase_def lower_char_def widget0_def model0_def Let_def)

text \<open>
  C5. Claimed: every request in token-based mode with one of the three values empty is
  rejected. The check for a loaded portal comes first: after a token-based authentication
  has succeeded, a request made with \<^verbatim>\<open>_portal_sharing_rest_url\<close> emptied resolves with
  the cached portal.
\<close>

theorem tokenbased_missing_field_cached_counterexample:
  "toLowerCase (m_auth_mode (model widget_rest_url_cleared)) = ''tokenbased''
   \<and> m_portal_sharing_rest_url (model widget_rest_url_cleared) = []
   \<and> authenticate_to_portal None widget_rest_url_cleared =
       (widget_rest_url_cleared, Settled (Resolved (Some 0)))"
proof -
  have "loaded_portal widget_rest_url_cleared = loaded_portal widget_token_loaded"
    unfolding widget_rest_url_cleared_def by (rule loaded_portal_model_update)
  then have "loaded_portal widget_rest_url_cleared = Some 0"
    using widget_token_loaded_state(1) by simp
  then have "authenticate_to_portal None widget_rest_url_cleared =
      (widget_rest_url_cleared, Settled (Resolved (Some 0)))"
    by (rule authenticate_to_portal_cached)
  then show ?thesis
    using widget_token_loaded_state(2) by (simp add: widget_rest_url_cleared_def)
qed

text \<open>
  C5, as the code has it. When the modules have loaded and no loaded portal is cached, a
  request in token-based mode with an empty \<^verbatim>\<open>_portal_url\<close>, an empty
  \<^verbatim>\<open>_portal_sharing_rest_url\<close> or an empty token (as \<^verbatim>\<open>get_portal_token\<close> finds it)
  is rejected in that callback with a message naming the three required values and printing
  them; the widget is left as it was, so no server or token has been registered and no
  Portal constructed. When a loaded portal is cached the request resolves with it.
\<close>

theorem tokenbased_missing_field_rejects:
  "(loaded_portal w = None \<longrightarrow> toLowerCase (m_auth_mode (model w)) = ''tokenbased'' \<longrightarrow>
      (m_portal_url (model w) = [] \<or> m_portal_sharing_rest_url (model w) = []
       \<or> get_portal_token w = []) \<longrightarrow>
      authenticate_to_portal None w =
        (w, Settled (Rejected (ErrString
           (''_portal_url, _portal_sharing_rest_url, and _portal_token '' @
            ''must be specified to authenticate in 'tokenBased' auth mode. '' @
            ''_portal_url = '' @ m_portal_url (model w) @
            '', _portal_sharing_rest_url = '' @ m_portal_sharing_rest_url (model w) @
            '', _portal_token = '' @ undefined_or (w_portalToken w))))))
   \<and> (loaded_portal w = Some p \<longrightarrow>
        authenticate_to_portal None w = (w, Settled (Resolved (Some p))))"
proof (intro conjI impI)
  assume "loaded_portal w = None" and "toLowerCase (m_auth_mode (model w)) = ''tokenbased''"
    and "m_portal_url (model w) = [] \<or> m_portal_sharing_rest_url (model w) = []
       \<or> get_portal_token w = []"
  then show "authenticate_to_portal None w =
        (w, Settled (Rejected (ErrString
           (''_portal_url, _portal_sharing_rest_url, and _portal_token '' @
            ''must be specified to authenticate in 'tokenBased' auth mode. '' @
            ''_portal_url = '' @ m_portal_url (model w) @
            '', _portal_sharing_rest_url = '' @ m_portal_sharing_rest_url (model w) @
            '', _portal_token = '' @ undefined_or (w_portalToken w)))))"
    by (auto simp: authenticate_to_portal_def authenticate_callback_def rejMsg_def Let_def)
next
  assume "loaded_portal w = Some p"
  then show "authenticate_to_portal None w = (w, Settled (Resolved (Some p)))"
    by (rule authenticate_to_portal_cached)
qed

theorem tokenbased_missing_field_rejects_witness:
  "loaded_portal widget_token_missing_rest = None
   \<and> toLowerCase (m_auth_mode (model widget_token_missing_rest)) = ''tokenbased''
   \<and> m_portal_sharing_rest_url (model widget_token_missing_rest) = []
   \<and> authenticate_to_portal None widget_token_missing_rest =
       (widget_token_missing_rest, Settled (Rejected (ErrString
          (''_portal_url, _portal_sharing_rest_url, and _portal_token '' @
           ''must be specified to authenticate in 'tokenBased' auth mode. '' @
           ''_portal_url = https://portal, _portal_sharing_rest_url = , '' @
           ''_portal_token = undefined''))))
   \<and> portals (fst (authenticate_to_portal None widget_token_missing_rest)) = []
   \<and> registeredTokens (fst (authenticate_to_portal None widget_token_missing_rest)) = []
   \<and> authenticate_to_portal None widget_token_loaded =
       (widget_token_loaded, Settled (Resolved (Some 0)))"
proof -
  have none: "loaded_portal widget_token_missing_rest = None"
    and mode: "toLowerCase (m_auth_mode (model widget_token_missing_rest)) = ''tokenbased''"
    and rest: "m_portal_sharing_rest_url (model widget_token_missing_rest) = []"
    and url: "m_portal_url (model widget_token_missing_rest) = ''https://portal''"
    and tok: "w_portalToken widget_token_missing_rest = None"
    and clean: "portals widget_token_missing_rest = []"
      "registeredTokens widget_token_missing_rest = []"
    by (simp_all add: widget_token_missing_rest_def widget0_def model0_def loaded_portal_def
        toLowerCase_def lower_char_def)
  show ?thesis
    using none mode rest clean
      tokenbased_missing_field_rejects [of widget_token_missing_rest 0]
      tokenbased_missing_field_rejects [of widget_token_loaded 0]
      widget_token_loaded_state(1)
    by (simp add: url tok undefined_or_def)
qed

end
